theory Spec2Isabelle
  imports Main "HOL-Library.Word"
begin

section \<open>Shared data model\<close>

text \<open>
  The development embeds two Go files of the control-plane PKI:
  the CA issuance policy (package \<open>cppki\<close>: \<open>CAPolicy.CreateChain\<close>, \<open>SubjectKeyID\<close>)
  and the client renewal command (package \<open>certs\<close>: \<open>newRenewCmd\<close> and its helpers).

  Go values are modelled as follows.
  \<^item> \<open>[]byte\<close> is a list of 8-bit words; a slice that the code compares with \<open>nil\<close> is an
    \<open>option\<close>.
  \<^item> \<open>time.Time\<close> is an instant, an integer count of nanoseconds since the zero time
    (January 1, year 1, 00:00 UTC), so \<open>IsZero\<close> is equality with 0. \<open>time.Duration\<close>
    is a signed 64-bit count of nanoseconds. \<open>Time.Add\<close> is exact addition: an
    instant is stored with a 64-bit count of seconds, so adding a duration of at
    most 292 years does not leave the representable range for any instant that an
    X.509 time can encode.
  \<^item> \<open>error\<close> values are a datatype: \<open>serrors.New\<close> keeps its message (the logging
    context pairs are dropped), \<open>serrors.WrapStr\<close> keeps message and cause, and an error
    produced by a collaborator outside the embedded files is \<open>External\<close>.
  \<^item> A function that returns \<open>(T, error)\<close> and may also panic returns a \<open>res\<close>.
\<close>

type_synonym bytes = "8 word list"
type_synonym Time = int
type_synonym Duration = "64 word"

definition IsZero :: "Time \<Rightarrow> bool" where
  "IsZero t = (t = 0)"

definition Add :: "Time \<Rightarrow> Duration \<Rightarrow> Time" where
  "Add t d = t + sint d"

datatype error = New string | WrapStr string error | External string

datatype 'a res = Ok 'a | Err error | Panic string

subsection \<open>Keys and certificates (the fields of crypto/x509 that the code touches)\<close>

datatype Curve = P224 | P256 | P384 | P521

text \<open>\<open>crypto.PublicKey\<close> and \<open>crypto.Signer\<close> are interfaces; the model lists the nil
  interface and the key types of the standard library.\<close>

datatype ecdsa_PublicKey = ecdsa_PublicKey Curve int int

datatype ecdsa_PrivateKey = ecdsa_PrivateKey ecdsa_PublicKey int

datatype PublicKey =
    NilPublicKey
  | ECDSA_PublicKey ecdsa_PublicKey
  | RSA_PublicKey int int
  | Ed25519_PublicKey bytes

datatype PrivateKey =
    ECDSA_PrivateKey ecdsa_PrivateKey
  | RSA_PrivateKey int int int
  | Ed25519_PrivateKey bytes

text \<open>\<open>(*ecdsa.PrivateKey).Public()\<close>.\<close>

fun Public :: "ecdsa_PrivateKey \<Rightarrow> PublicKey" where
  "Public (ecdsa_PrivateKey pub d) = ECDSA_PublicKey pub"

datatype SignatureAlgorithm =
    UnknownSignatureAlgorithm
  | MD2WithRSA | MD5WithRSA | SHA1WithRSA | SHA256WithRSA | SHA384WithRSA | SHA512WithRSA
  | DSAWithSHA1 | DSAWithSHA256
  | ECDSAWithSHA1 | ECDSAWithSHA256 | ECDSAWithSHA384 | ECDSAWithSHA512
  | SHA256WithRSAPSS | SHA384WithRSAPSS | SHA512WithRSAPSS
  | PureEd25519

datatype ExtKeyUsage =
    ExtKeyUsageAny | ExtKeyUsageServerAuth | ExtKeyUsageClientAuth | ExtKeyUsageCodeSigning
  | ExtKeyUsageEmailProtection | ExtKeyUsageTimeStamping | ExtKeyUsageOCSPSigning

type_synonym ObjectIdentifier = "int list"

record AttributeTypeAndValue =
  Type :: ObjectIdentifier
  Value :: string

record Extension =
  Id :: ObjectIdentifier
  Critical :: bool
  Value :: bytes

text \<open>\<open>pkix.Name\<close>.\<close>

record Name =
  Country :: "string list"
  Organization :: "string list"
  OrganizationalUnit :: "string list"
  Locality :: "string list"
  Province :: "string list"
  StreetAddress :: "string list"
  PostalCode :: "string list"
  SerialNumber :: string
  CommonName :: string
  Names :: "AttributeTypeAndValue list"
  ExtraNames :: "AttributeTypeAndValue list"

definition Name_zero :: Name where
  "Name_zero = \<lparr>Country = [], Organization = [], OrganizationalUnit = [], Locality = [],
     Province = [], StreetAddress = [], PostalCode = [], SerialNumber = [], CommonName = [],
     Names = [], ExtraNames = []\<rparr>"

text \<open>\<open>x509.KeyUsage\<close> is a bit set; \<open>KeyUsageDigitalSignature\<close> is its first bit.\<close>

definition KeyUsageDigitalSignature :: nat where
  "KeyUsageDigitalSignature = 1"

record Certificate =
  Raw :: bytes
  SignatureAlgorithm :: SignatureAlgorithm
  Version :: int
  SerialNumber :: int
  Issuer :: Name
  Subject :: Name
  NotBefore :: Time
  NotAfter :: Time
  KeyUsage :: nat
  ExtKeyUsage :: "ExtKeyUsage list"
  BasicConstraintsValid :: bool
  SubjectKeyId :: bytes
  AuthorityKeyId :: bytes
  PublicKey :: PublicKey

record CertificateRequest =
  Subject :: Name
  PublicKey :: PublicKey
  Extensions :: "Extension list"
  ExtraExtensions :: "Extension list"

subsection \<open>Data of the renewal command\<close>

text \<open>\<open>pem.Block\<close> (headers are not used by the code).\<close>

record Block =
  Type :: string
  Bytes :: bytes

text \<open>\<open>addr.IA\<close>, a struct of an ISD number (16 bit) and an AS number (64 bit).\<close>

record IA =
  I :: "16 word"
  A :: "64 word"

definition IA_zero :: IA where
  "IA_zero = \<lparr>I = 0, A = 0\<rparr>"

text \<open>\<open>cppki.TRCID\<close> and \<open>cppki.TRC\<close>; base and serial are version numbers
  (\<open>uint64\<close>). The remaining content of a TRC is opaque to this code.\<close>

record TRCID =
  ISD :: "16 word"
  Base :: "64 word"
  Serial :: "64 word"

record TRC =
  ID :: TRCID
  Content :: bytes

record Validity =
  NotBefore :: Time
  NotAfter :: Time

record Features =
  DisableLegacyRequest :: bool
  DisableCMSRequest :: bool

record SubjectVars =
  CommonName :: string
  Country :: string
  ISDAS :: IA
  Locality :: string
  Organization :: string
  OrganizationalUnit :: string
  PostalCode :: string
  Province :: string
  SerialNumber :: string
  StreetAddress :: string

text \<open>The flags of the command. \<open>listen\<close> is a \<open>net.IP\<close> that the code compares
  with nil.\<close>

record flags =
  keyFile :: string
  outFile :: string
  csrFile :: string
  reqFile :: string
  templateFile :: string
  transportCertFile :: string
  transportKeyFile :: string
  trcFiles :: "string list"
  dispatcherPath :: string
  sciondAddr :: string
  listen :: "bytes option"
  timeout :: Duration
  features :: "string list"
  tracer :: string

text \<open>\<open>snet.UDPAddr\<close>: \<open>Host\<close> is a pointer to a \<open>net.UDPAddr\<close>, of which only the IP
  is used.\<close>

record UDPAddr =
  IA :: IA
  Host :: "bytes option"

text \<open>\<open>trust.Signer\<close>, as \<open>createSigner\<close> fills it in.\<close>

record trust_Signer =
  PrivateKey :: ecdsa_PrivateKey
  Algorithm :: nat
  IA :: IA
  TRCID :: TRCID
  SubjectKeyID :: bytes
  Expiration :: Time
  ChainValidity :: Validity
  Subject :: Name
  Chain :: "Certificate list"

text \<open>The protobuf messages of the renewal service. A message-typed field is a
  pointer in the generated Go code and is nil when the field is absent; a
  \<open>bytes\<close> field is a slice. \<open>CmsSignedResponse\<close> is only measured with \<open>len\<close>, so nil
  and empty coincide.\<close>

datatype SignedMessage = SignedMessage bytes

record ChainRenewalRequest =
  SignedRequest :: "SignedMessage option"
  CmsSignedRequest :: "bytes option"

record ChainRenewalResponse =
  SignedResponse :: "SignedMessage option"
  CmsSignedResponse :: bytes

record Chain =
  AsCert :: bytes
  CaCert :: bytes

record ChainRenewalResponseBody =
  Chain :: "Chain option"

text \<open>The CMS structures of package protocol, opaque apart from the field the code
  selects.\<close>

datatype ContentInfo = ContentInfo bytes

datatype EncapsulatedContentInfo = EncapsulatedContentInfo bytes

record SignedData =
  EncapContentInfo :: EncapsulatedContentInfo

text \<open>\<open>grpc.QUICDialer\<close>: the model keeps the local and remote address it was built
  from.\<close>

datatype Dialer = QUICDialer UDPAddr UDPAddr

subsection \<open>Effects\<close>

text \<open>
  Code that acts on the outside world returns its result together with the list of
  the actions it performed, in order. The outcome of each action (the bytes read,
  the error of a failed write) is supplied by a record of collaborators, so a run
  of the model is a function of its inputs and of what the world answers.
  Tracing spans, log set-up and the context deadline are not recorded; an expired
  deadline shows as the error of the network action it interrupts.
\<close>

datatype event =
    RandRead nat
  | CertificateCreate Certificate Certificate PublicKey PrivateKey
  | CertificateRequestCreate CertificateRequest ecdsa_PrivateKey
  | Stdout string
  | Stderr string
  | TRCsLoad "string list"
  | PEMCertsRead string
  | FileRead string
  | FileWrite string bytes
  | FileCreate string
  | FileEncode string Block
  | FileClose string
  | DaemonConnect string
  | DaemonLocalIA
  | DaemonLocalIP
  | NetDial UDPAddr UDPAddr
  | ServiceDial IA
  | RequestSend ChainRenewalRequest
  | ConnClose

type_synonym 'a io = "'a res \<times> event list"

definition ret :: "'a \<Rightarrow> 'a io" where
  "ret x = (Ok x, [])"

definition fail :: "error \<Rightarrow> 'a io" where
  "fail e = (Err e, [])"

definition crash :: "string \<Rightarrow> 'a io" where
  "crash s = (Panic s, [])"

definition emit :: "event \<Rightarrow> unit io" where
  "emit ev = (Ok (), [ev])"

text \<open>An action whose outcome the world supplies: the event is recorded, then the
  outcome is returned or raised.\<close>

definition act :: "event \<Rightarrow> error + 'a \<Rightarrow> 'a io" where
  "act ev r = (case r of Inl e \<Rightarrow> (Err e, [ev]) | Inr x \<Rightarrow> (Ok x, [ev]))"

definition lift :: "error + 'a \<Rightarrow> 'a io" where
  "lift r = (case r of Inl e \<Rightarrow> fail e | Inr x \<Rightarrow> ret x)"

definition wrap :: "string \<Rightarrow> 'a io \<Rightarrow> 'a io" where
  "wrap msg m = (case m of (Err e, t) \<Rightarrow> (Err (WrapStr msg e), t) | _ \<Rightarrow> m)"

definition andThen :: "'a io \<Rightarrow> ('a \<Rightarrow> 'b io) \<Rightarrow> 'b io" where
  "andThen m f =
     (case m of
        (Ok x, t) \<Rightarrow> (case f x of (r, t') \<Rightarrow> (r, t @ t'))
      | (Err e, t) \<Rightarrow> (Err e, t)
      | (Panic s, t) \<Rightarrow> (Panic s, t))"

subsection \<open>Formatting and paths (fmt, math/big, path/filepath)\<close>

definition digit :: "nat \<Rightarrow> char" where
  "digit d = ''0123456789abcdef'' ! d"

text \<open>The verb \<open>%d\<close> on an unsigned integer.\<close>

fun Sprintf_d :: "nat \<Rightarrow> string" where
  "Sprintf_d n = (if n < 10 then [digit n] else Sprintf_d (n div 10) @ [digit (n mod 10)])"

declare Sprintf_d.simps [simp del]

text \<open>The verb \<open>%x\<close> on a byte slice: two lower-case digits per byte.\<close>

definition Sprintf_x :: "bytes \<Rightarrow> string" where
  "Sprintf_x bs = concat (map (\<lambda>b. [digit (unat b div 16), digit (unat b mod 16)]) bs)"

text \<open>\<open>big.Int.SetBytes\<close> reads the bytes as a big-endian unsigned integer;
  \<open>big.Int.Bytes\<close> is the big-endian absolute value without leading zero bytes.\<close>

definition SetBytes :: "bytes \<Rightarrow> int" where
  "SetBytes bs = foldl (\<lambda>acc b. acc * 256 + uint b) 0 bs"

fun nat_Bytes :: "nat \<Rightarrow> bytes" where
  "nat_Bytes n = (if n = 0 then [] else nat_Bytes (n div 256) @ [of_nat (n mod 256)])"

declare nat_Bytes.simps [simp del]

definition big_Bytes :: "int \<Rightarrow> bytes" where
  "big_Bytes n = nat_Bytes (nat \<bar>n\<bar>)"

text \<open>path/filepath on a Unix system. \<open>Clean\<close> follows the documented rules: runs of
  separators collapse, \<open>.\<close> elements disappear, an inner \<open>..\<close> removes the element
  before it, \<open>..\<close> at the root disappears, and the empty result is \<open>.\<close>.\<close>

fun split_path :: "string \<Rightarrow> string \<Rightarrow> string list" where
  "split_path cur [] = [rev cur]"
| "split_path cur (c # cs) =
     (if c = CHR ''/'' then rev cur # split_path [] cs else split_path (c # cur) cs)"

fun clean_elems :: "bool \<Rightarrow> string list \<Rightarrow> string list \<Rightarrow> string list" where
  "clean_elems rooted [] acc = rev acc"
| "clean_elems rooted (e # es) acc =
     (if e = ''..'' then
        (case acc of
           [] \<Rightarrow> if rooted then clean_elems rooted es [] else clean_elems rooted es [e]
         | a # acc' \<Rightarrow>
             if a = ''..'' then clean_elems rooted es (e # acc) else clean_elems rooted es acc')
      else clean_elems rooted es (e # acc))"

fun join_path :: "string list \<Rightarrow> string" where
  "join_path [] = []"
| "join_path [e] = e"
| "join_path (e # es) = e @ ''/'' @ join_path es"

definition filepath_Clean :: "string \<Rightarrow> string" where
  "filepath_Clean path =
     (let rooted = (case path of [] \<Rightarrow> False | c # _ \<Rightarrow> c = CHR ''/'');
          elems = clean_elems rooted
                    (filter (\<lambda>e. e \<noteq> [] \<and> e \<noteq> ''.'') (split_path [] path)) [];
          body = join_path elems
      in if rooted then ''/'' @ body else if body = [] then ''.'' else body)"

text \<open>\<open>filepath.Dir\<close>: everything up to and including the last separator, cleaned.\<close>

definition filepath_Dir :: "string \<Rightarrow> string" where
  "filepath_Dir path = filepath_Clean (rev (dropWhile (\<lambda>c. c \<noteq> CHR ''/'') (rev path)))"

text \<open>\<open>filepath.Join\<close>: leading empty elements are ignored, the rest is joined with
  separators and cleaned; no non-empty element gives the empty string.\<close>

definition filepath_Join :: "string list \<Rightarrow> string" where
  "filepath_Join elem =
     (case dropWhile (\<lambda>e. e = []) elem of [] \<Rightarrow> [] | es \<Rightarrow> filepath_Clean (join_path es))"

definition newline :: string where
  "newline = [CHR 0x0A]"

subsection \<open>Collaborators shared by both files\<close>

text \<open>The hash and the point encoding of the standard library, the clock, the
  certificate parser of crypto/x509, and \<open>ValidateChain\<close> of package cppki (not part
  of the embedded sources). Each run reads one instant from the clock.\<close>

record Lib =
  sha1_Sum :: "bytes \<Rightarrow> bytes"
  elliptic_Marshal :: "Curve \<Rightarrow> int \<Rightarrow> int \<Rightarrow> bytes"
  time_Now :: Time
  x509_ParseCertificate :: "bytes \<Rightarrow> error + Certificate"
  ValidateChain :: "Certificate list \<Rightarrow> error option"

section \<open>CA issuance policy (package cppki)\<close>

text \<open>Modelled from the spec: \<open>Validity.Covers\<close> is defined in a file of package cppki
  that is not part of the embedded sources. The specification gives it as
  \<open>covers(outer, inner)\<close>, true iff \<open>outer.notBefore <= inner.notBefore &&
  inner.notAfter <= outer.notAfter\<close>.\<close>

definition Covers :: "Validity \<Rightarrow> Validity \<Rightarrow> bool" where
  "Covers outer inner =
     (NotBefore outer \<le> NotBefore inner \<and> NotAfter inner \<le> NotAfter outer)"

record CAPolicy =
  Validity :: Duration
  Certificate :: Certificate
  Signer :: PrivateKey
  CurrentTime :: Time

text \<open>\<open>CreateChain\<close> also uses the random source and the certificate encoder of
  crypto/x509.\<close>

record CA_env = Lib +
  rand_Read :: "nat \<Rightarrow> error + bytes"
  x509_CreateCertificate ::
    "Certificate \<Rightarrow> Certificate \<Rightarrow> PublicKey \<Rightarrow> PrivateKey \<Rightarrow> error + bytes"

text \<open>\<open>SubjectKeyID\<close>: the type switch has one case, the ECDSA public key.\<close>

fun SubjectKeyID :: "'a Lib_scheme \<Rightarrow> PublicKey \<Rightarrow> error + bytes" where
  "SubjectKeyID E (ECDSA_PublicKey (ecdsa_PublicKey c x y)) =
     Inr (sha1_Sum E (elliptic_Marshal E c x y))"
| "SubjectKeyID E _ = Inl (New ''not supported'')"

text \<open>The certificate template that \<open>CreateChain\<close> fills in. Fields that the composite
  literal does not mention have their zero value.\<close>

definition tmpl :: "CAPolicy \<Rightarrow> bytes \<Rightarrow> Name \<Rightarrow> Validity \<Rightarrow> bytes \<Rightarrow> Certificate" where
  "tmpl ca serial subject asVal skid =
     \<lparr>Raw = [],
      SignatureAlgorithm = ECDSAWithSHA512,
      Version = 3,
      Certificate.SerialNumber = SetBytes serial,
      Issuer = Name_zero,
      Certificate.Subject = subject,
      Certificate.NotBefore = NotBefore asVal,
      Certificate.NotAfter = NotAfter asVal,
      KeyUsage = KeyUsageDigitalSignature,
      ExtKeyUsage = [ExtKeyUsageServerAuth, ExtKeyUsageClientAuth, ExtKeyUsageTimeStamping],
      BasicConstraintsValid = False,
      SubjectKeyId = skid,
      AuthorityKeyId = SubjectKeyId (Certificate ca),
      Certificate.PublicKey = NilPublicKey\<rparr>"

definition CreateChain :: "CA_env \<Rightarrow> CAPolicy \<Rightarrow> CertificateRequest \<Rightarrow> Certificate list io" where
  "CreateChain E ca csr =
     (let now = (if IsZero (CurrentTime ca) then time_Now E else CurrentTime ca);
          caVal = \<lparr>NotBefore = Certificate.NotBefore (Certificate ca),
                   NotAfter = Certificate.NotAfter (Certificate ca)\<rparr>;
          asVal = \<lparr>NotBefore = now, NotAfter = Add now (Validity ca)\<rparr>
      in
      if \<not> Covers caVal asVal then fail (New ''AS certificate validity not covered'')
      else
        andThen (wrap ''creating random serial number'' (act (RandRead 20) (rand_Read E 20)))
        (\<lambda>serial.
          let subject = (CertificateRequest.Subject csr)
                \<lparr>ExtraNames := Names (CertificateRequest.Subject csr)\<rparr>
          in
          andThen (wrap ''computing subject key ID''
                     (lift (SubjectKeyID E (CertificateRequest.PublicKey csr))))
          (\<lambda>skid.
            let t = tmpl ca serial subject asVal skid in
            andThen (wrap ''creating AS certificate''
                       (act (CertificateCreate t (Certificate ca)
                               (CertificateRequest.PublicKey csr) (Signer ca))
                            (x509_CreateCertificate E t (Certificate ca)
                               (CertificateRequest.PublicKey csr) (Signer ca))))
            (\<lambda>raw.
              andThen (wrap ''parse created AS certificate'' (lift (x509_ParseCertificate E raw)))
              (\<lambda>as.
                let chain = [as, Certificate ca] in
                (case ValidateChain E chain of
                   Some e \<Rightarrow> fail (WrapStr ''created invalid AS certificate'' e)
                 | None \<Rightarrow> ret chain))))))"

section \<open>Renewal command (package certs)\<close>

subsection \<open>Collaborators\<close>

text \<open>Functions, methods and constants of this repository that the command uses and
  that are not part of the embedded sources (packages addr, serrors, feature, cppki,
  signed, renewal, protocol, and \<open>setupTracer\<close>, \<open>extendedKeyUsages\<close> of package
  certs). They are parameters of the model. \<open>Error\<close> renders an error as text.\<close>

record Repo_env = Lib +
  IAFromString :: "string \<Rightarrow> error + IA"
  IA_IsZero :: "IA \<Rightarrow> bool"
  IA_String :: "IA \<Rightarrow> string"
  FileFmt :: "64 word \<Rightarrow> string"
  Error :: "error \<Rightarrow> string"
  setupTracer :: "string \<Rightarrow> string \<Rightarrow> error option"
  feature_Parse :: "string list \<Rightarrow> error + Features"
  VerifyChain :: "Certificate list \<Rightarrow> TRC list \<Rightarrow> error option"
  InGracePeriod :: "TRC \<Rightarrow> Time \<Rightarrow> bool"
  ExtractIA :: "Name \<Rightarrow> error + IA"
  OIDNameIA :: ObjectIdentifier
  OIDExtensionSubjectKeyID :: ObjectIdentifier
  OIDExtensionKeyUsage :: ObjectIdentifier
  OIDExtKeyUsageServerAuth :: ObjectIdentifier
  OIDExtKeyUsageClientAuth :: ObjectIdentifier
  OIDExtKeyUsageTimeStamping :: ObjectIdentifier
  extendedKeyUsages :: "ObjectIdentifier list \<Rightarrow> Extension"
  SelectSignatureAlgorithm :: "PublicKey \<Rightarrow> error + nat"
  NewLegacyChainRenewalRequest :: "bytes \<Rightarrow> trust_Signer \<Rightarrow> error + SignedMessage option"
  NewChainRenewalRequest :: "bytes \<Rightarrow> trust_Signer \<Rightarrow> error + bytes option"
  ExtractUnverifiedBody :: "SignedMessage option \<Rightarrow> error + bytes"
  ParseContentInfo :: "bytes \<Rightarrow> error + ContentInfo"
  SignedDataContent :: "ContentInfo \<Rightarrow> error + SignedData"
  DataEContent :: "EncapsulatedContentInfo \<Rightarrow> error + bytes"

text \<open>Decoders and encoders of the standard library and of protobuf.
  \<open>pem_Decode\<close> gives the first block, or nothing when the input holds no PEM
  data.\<close>

record Codec_env = Repo_env +
  pem_Decode :: "bytes \<Rightarrow> Block option"
  pem_EncodeToMemory :: "Block \<Rightarrow> bytes"
  x509_ParsePKCS8PrivateKey :: "bytes \<Rightarrow> error + PrivateKey"
  x509_ParseCertificates :: "bytes \<Rightarrow> error + Certificate list"
  json_Unmarshal :: "bytes \<Rightarrow> error + SubjectVars"
  asn1_Marshal :: "bytes \<Rightarrow> error + bytes"
  asn1_Marshal_BitString :: "bytes \<Rightarrow> nat \<Rightarrow> error + bytes"
  proto_Unmarshal :: "bytes \<Rightarrow> error + ChainRenewalResponseBody"

text \<open>What the world answers to each action: the file system, the SCION daemon,
  the network and the CA's control service.\<close>

record Renew_env = Codec_env +
  loadTRCs :: "string list \<Rightarrow> error + TRC list"
  ReadPEMCerts :: "string \<Rightarrow> error + Certificate list"
  ioutil_ReadFile :: "string \<Rightarrow> error + bytes"
  ioutil_WriteFile :: "string \<Rightarrow> bytes \<Rightarrow> error option"
  os_Create :: "string \<Rightarrow> error option"
  pem_Encode :: "string \<Rightarrow> Block \<Rightarrow> error option"
  file_Close :: "string \<Rightarrow> error option"
  x509_CreateCertificateRequest :: "CertificateRequest \<Rightarrow> ecdsa_PrivateKey \<Rightarrow> error + bytes"
  sciond_Connect :: "string \<Rightarrow> error option"
  sciond_LocalIA :: "error + IA"
  DefaultLocalIP :: "error + bytes"
  snet_Dial :: "UDPAddr \<Rightarrow> UDPAddr \<Rightarrow> error option"
  grpc_Dial :: "Dialer \<Rightarrow> IA \<Rightarrow> error option"
  ChainRenewal :: "ChainRenewalRequest \<Rightarrow> error + ChainRenewalResponse"

text \<open>An action that returns only an error, and the capture of an error that the
  caller handles instead of returning it.\<close>

definition act_opt :: "event \<Rightarrow> error option \<Rightarrow> unit io" where
  "act_opt ev r = (case r of Some e \<Rightarrow> (Err e, [ev]) | None \<Rightarrow> (Ok (), [ev]))"

definition attempt :: "'a io \<Rightarrow> error option io" where
  "attempt m =
     (case m of
        (Ok x, t) \<Rightarrow> (Ok None, t)
      | (Err e, t) \<Rightarrow> (Ok (Some e), t)
      | (Panic s, t) \<Rightarrow> (Panic s, t))"

text \<open>A deferred call runs when the function returns, whatever the result.\<close>

definition deferred :: "'a io \<Rightarrow> event \<Rightarrow> 'a io" where
  "deferred m ev = (fst m, snd m @ [ev])"

text \<open>Indexing a slice at 0 panics when the slice is empty.\<close>

definition index0 :: "'a list \<Rightarrow> 'a io" where
  "index0 xs = (case xs of [] \<Rightarrow> crash ''index out of range'' | x # _ \<Rightarrow> ret x)"

subsection \<open>Helpers of the command\<close>

definition maybeMissingTRCInGrace :: "'a Repo_env_scheme \<Rightarrow> TRC list \<Rightarrow> bool" where
  "maybeMissingTRCInGrace E trcs =
     (length trcs = 1 \<and> InGracePeriod E (hd trcs) (time_Now E))"

text \<open>The two lines of guidance, printed in \<open>loadChain\<close> and after the verification of
  the renewed chain. The serial is an unsigned 64-bit number, so the subtraction
  wraps.\<close>

definition graceLine :: string where
  "graceLine =
     ''Verification failed, but current time still in Grace Period of latest TRC'' @ newline"

definition predecessorLine :: "TRC \<Rightarrow> string" where
  "predecessorLine trc =
     ''Try to verify with the predecessor TRC: (Base = '' @ Sprintf_d (unat (Base (ID trc)))
     @ '', Serial = '' @ Sprintf_d (unat (Serial (ID trc) - 1)) @ '')'' @ newline"

definition loadChain :: "Renew_env \<Rightarrow> TRC list \<Rightarrow> string \<Rightarrow> (Certificate list \<times> IA) io" where
  "loadChain E trcs file =
     andThen (act (PEMCertsRead file) (ReadPEMCerts E file))
     (\<lambda>chain.
       case VerifyChain E chain trcs of
         Some err \<Rightarrow>
           andThen
             (if maybeMissingTRCInGrace E trcs then
                andThen (emit (Stdout graceLine))
                (\<lambda>_. andThen (index0 trcs) (\<lambda>trc0. emit (Stdout (predecessorLine trc0))))
              else ret ())
           (\<lambda>_. fail (WrapStr ''verification of transport cert failed with provided TRC'' err))
       | None \<Rightarrow>
           andThen (index0 chain)
           (\<lambda>c0. case ExtractIA E (Issuer c0) of
                    Inl err \<Rightarrow> crash ''chain is already validated''
                  | Inr ia \<Rightarrow> ret (chain, ia)))"

text \<open>\<open>readECKey\<close>: \<open>pem.Decode\<close> returns a nil block when the file holds no PEM data,
  and the code reads \<open>block.Bytes\<close> without a check.\<close>

definition readECKey :: "Renew_env \<Rightarrow> string \<Rightarrow> ecdsa_PrivateKey io" where
  "readECKey E file =
     andThen (act (FileRead file) (ioutil_ReadFile E file))
     (\<lambda>raw.
       case pem_Decode E raw of
         None \<Rightarrow> crash ''nil pointer dereference''
       | Some block \<Rightarrow>
           andThen (lift (x509_ParsePKCS8PrivateKey E (Bytes block)))
           (\<lambda>key. case key of
                     ECDSA_PrivateKey v \<Rightarrow> ret v
                   | _ \<Rightarrow> fail (New ''only ecdsa keys are supported'')))"

definition createSigner ::
  "Renew_env \<Rightarrow> IA \<Rightarrow> TRC \<Rightarrow> Certificate list \<Rightarrow> string \<Rightarrow> trust_Signer io" where
  "createSigner E srcIA trc chain file =
     andThen (readECKey E file)
     (\<lambda>key.
       andThen (lift (SelectSignatureAlgorithm E (Public key)))
       (\<lambda>algo.
         andThen (index0 chain)
         (\<lambda>c0. ret \<lparr>PrivateKey = key,
                     Algorithm = algo,
                     trust_Signer.IA = srcIA,
                     TRCID = ID trc,
                     trust_Signer.SubjectKeyID = SubjectKeyId c0,
                     Expiration = Add (time_Now E) 7200000000000,
                     ChainValidity = \<lparr>NotBefore = Certificate.NotBefore c0,
                                       NotAfter = Certificate.NotAfter c0\<rparr>,
                     trust_Signer.Subject = Certificate.Subject c0,
                     trust_Signer.Chain = chain\<rparr>)))"

text \<open>\<open>sendRequest\<close>: the connection is closed by a deferred call once the dial has
  succeeded.\<close>

definition sendRequest ::
  "Renew_env \<Rightarrow> IA \<Rightarrow> Dialer \<Rightarrow> ChainRenewalRequest \<Rightarrow> ChainRenewalResponse io" where
  "sendRequest E dstIA dialer req =
     andThen (act_opt (ServiceDial dstIA) (grpc_Dial E dialer dstIA))
     (\<lambda>_. deferred (act (RequestSend req) (ChainRenewal E req)) ConnClose)"

text \<open>\<open>extractChainLegacy\<close>: \<open>replyBody.Chain\<close> is a pointer to a message; the code reads
  its fields without a nil check.\<close>

definition extractChainLegacy ::
  "'a Codec_env_scheme \<Rightarrow> ChainRenewalResponse \<Rightarrow> Certificate list res" where
  "extractChainLegacy E rep =
     (case ExtractUnverifiedBody E (SignedResponse rep) of
        Inl err \<Rightarrow> Err err
      | Inr body \<Rightarrow>
     (case proto_Unmarshal E body of
        Inl err \<Rightarrow> Err err
      | Inr replyBody \<Rightarrow>
     (case ChainRenewalResponseBody.Chain replyBody of
        None \<Rightarrow> Panic ''nil pointer dereference''
      | Some c \<Rightarrow>
     (case x509_ParseCertificate E (AsCert c) of
        Inl err \<Rightarrow> Err (WrapStr ''parsing AS certificate'' err)
      | Inr as \<Rightarrow>
     (case x509_ParseCertificate E (CaCert c) of
        Inl err \<Rightarrow> Err (WrapStr ''parsing CA certificate'' err)
      | Inr ca \<Rightarrow>
     (case ValidateChain E [as, ca] of
        Some err \<Rightarrow> Err err
      | None \<Rightarrow> Ok [as, ca]))))))"

definition extractChain ::
  "'a Codec_env_scheme \<Rightarrow> ChainRenewalResponse \<Rightarrow> Certificate list res" where
  "extractChain E rep =
     (if length (CmsSignedResponse rep) = 0 then extractChainLegacy E rep
      else
     (case ParseContentInfo E (CmsSignedResponse rep) of
        Inl err \<Rightarrow> Err err
      | Inr ci \<Rightarrow>
     (case SignedDataContent E ci of
        Inl err \<Rightarrow> Err err
      | Inr sd \<Rightarrow>
     (case DataEContent E (EncapContentInfo sd) of
        Inl err \<Rightarrow> Err err
      | Inr raw \<Rightarrow>
     (case x509_ParseCertificates E raw of
        Inl err \<Rightarrow> Err err
      | Inr chain \<Rightarrow>
     (case ValidateChain E chain of
        Some err \<Rightarrow> Err err
      | None \<Rightarrow> Ok chain))))))"

text \<open>\<open>subjectFromVars\<close>: the loop over the map of field pointers sets each list-valued
  field whose template value is not empty; the fields are distinct, so the order
  of the iteration does not matter.\<close>

definition nonEmpty :: "string \<Rightarrow> string list" where
  "nonEmpty v = (if v \<noteq> [] then [v] else [])"

definition subjectFromVars :: "'a Repo_env_scheme \<Rightarrow> SubjectVars \<Rightarrow> error + Name" where
  "subjectFromVars E vars =
     (if IA_IsZero E (ISDAS vars) then Inl (New ''isd_as required in template'')
      else Inr
        \<lparr>Name.Country = nonEmpty (Country vars),
         Name.Organization = nonEmpty (Organization vars),
         Name.OrganizationalUnit = nonEmpty (OrganizationalUnit vars),
         Name.Locality = nonEmpty (Locality vars),
         Name.Province = nonEmpty (Province vars),
         Name.StreetAddress = nonEmpty (StreetAddress vars),
         Name.PostalCode = nonEmpty (PostalCode vars),
         Name.SerialNumber = SerialNumber vars,
         Name.CommonName = CommonName vars,
         Names = [],
         ExtraNames = [\<lparr>AttributeTypeAndValue.Type = OIDNameIA E,
                        AttributeTypeAndValue.Value = IA_String E (ISDAS vars)\<rparr>]\<rparr>)"

definition readVars :: "Renew_env \<Rightarrow> string \<Rightarrow> SubjectVars io" where
  "readVars E file =
     andThen (act (FileRead file) (ioutil_ReadFile E file))
     (\<lambda>raw. lift (json_Unmarshal E raw))"

definition subjectFromTemplate :: "Renew_env \<Rightarrow> string \<Rightarrow> Name io" where
  "subjectFromTemplate E file =
     andThen (wrap ''reading template'' (readVars E file))
     (\<lambda>vars. lift (subjectFromVars E vars))"

definition subjectKeyID :: "'a Codec_env_scheme \<Rightarrow> PublicKey \<Rightarrow> error + Extension" where
  "subjectKeyID E pub =
     (case SubjectKeyID E pub of
        Inl err \<Rightarrow> Inl err
      | Inr skid \<Rightarrow>
          (case asn1_Marshal E skid of
             Inl err \<Rightarrow> Inl err
           | Inr val \<Rightarrow> Inr \<lparr>Id = OIDExtensionSubjectKeyID E, Critical = False, Value = val\<rparr>))"

text \<open>\<open>keyUsage\<close> panics when the bit string cannot be marshaled.\<close>

definition keyUsage :: "'a Codec_env_scheme \<Rightarrow> Extension res" where
  "keyUsage E =
     (case asn1_Marshal_BitString E [0x80] 1 of
        Inl err \<Rightarrow> Panic (Error E err)
      | Inr val \<Rightarrow> Ok \<lparr>Id = OIDExtensionKeyUsage E, Critical = True, Value = val\<rparr>)"

definition extKeyUsage :: "'a Codec_env_scheme \<Rightarrow> Extension" where
  "extKeyUsage E =
     extendedKeyUsages E
       [OIDExtKeyUsageServerAuth E, OIDExtKeyUsageClientAuth E, OIDExtKeyUsageTimeStamping E]"

definition buildExtensions :: "'a Codec_env_scheme \<Rightarrow> PublicKey \<Rightarrow> Extension list res" where
  "buildExtensions E pub =
     (case subjectKeyID E pub of
        Inl err \<Rightarrow> Err (WrapStr ''creating SubjectKeyID extension'' err)
      | Inr subKeyID \<Rightarrow>
          (case keyUsage E of
             Ok ku \<Rightarrow> Ok [ku, extKeyUsage E, subKeyID]
           | Err err \<Rightarrow> Err err
           | Panic msg \<Rightarrow> Panic msg))"

definition csrTemplate ::
  "Renew_env \<Rightarrow> Certificate \<Rightarrow> PublicKey \<Rightarrow> string \<Rightarrow> CertificateRequest io" where
  "csrTemplate E prev pub file =
     andThen
       (if file \<noteq> [] then subjectFromTemplate E file
        else ret ((Certificate.Subject prev)\<lparr>ExtraNames := Names (Certificate.Subject prev)\<rparr>))
     (\<lambda>s.
       andThen (wrap ''building extensions'' (buildExtensions E pub, []))
       (\<lambda>exts. ret \<lparr>CertificateRequest.Subject = s,
                      CertificateRequest.PublicKey = NilPublicKey,
                      Extensions = [],
                      ExtraExtensions = exts\<rparr>))"

definition findLocalAddr :: "Renew_env \<Rightarrow> string \<Rightarrow> UDPAddr io" where
  "findLocalAddr E sds =
     andThen (act_opt (DaemonConnect sds) (sciond_Connect E sds))
     (\<lambda>_. andThen (act DaemonLocalIA (sciond_LocalIA E))
       (\<lambda>localIA. andThen (act DaemonLocalIP (DefaultLocalIP E))
         (\<lambda>localIP. ret \<lparr>UDPAddr.IA = localIA, Host = Some localIP\<rparr>)))"

definition buildDialer :: "Renew_env \<Rightarrow> string \<Rightarrow> UDPAddr \<Rightarrow> UDPAddr \<Rightarrow> Dialer io" where
  "buildDialer E sds localAddr remote =
     andThen (wrap ''connecting to SCION Daemon''
                (act_opt (DaemonConnect sds) (sciond_Connect E sds)))
     (\<lambda>_. andThen (wrap ''dialing''
                      (act_opt (NetDial localAddr remote) (snet_Dial E localAddr remote)))
       (\<lambda>_. case Host localAddr of
               None \<Rightarrow> crash ''nil pointer dereference''
             | Some ip \<Rightarrow> ret (QUICDialer localAddr remote)))"

text \<open>\<open>writeChain\<close>: the file is created, one PEM block per certificate is written,
  and the file is closed; the first error ends the function.\<close>

fun encodeAll :: "Renew_env \<Rightarrow> string \<Rightarrow> Certificate list \<Rightarrow> unit io" where
  "encodeAll E file [] = ret ()"
| "encodeAll E file (c # cs) =
     andThen
       (act_opt (FileEncode file \<lparr>Type = ''CERTIFICATE'', Bytes = Raw c\<rparr>)
          (pem_Encode E file \<lparr>Type = ''CERTIFICATE'', Bytes = Raw c\<rparr>))
     (\<lambda>_. encodeAll E file cs)"

definition writeChain :: "Renew_env \<Rightarrow> Certificate list \<Rightarrow> string \<Rightarrow> unit io" where
  "writeChain E chain file =
     andThen (act_opt (FileCreate file) (os_Create E file))
     (\<lambda>_. andThen (encodeAll E file chain)
       (\<lambda>_. act_opt (FileClose file) (file_Close E file)))"

text \<open>\<open>outFileFromSubject\<close> formats \<open>ISD%d-AS%s.%x.pem\<close> and joins it to the
  directory.\<close>

definition outFileFromSubject :: "'a Repo_env_scheme \<Rightarrow> Certificate list \<Rightarrow> string \<Rightarrow> string io" where
  "outFileFromSubject E renewed dir =
     andThen (index0 renewed)
     (\<lambda>r0. case ExtractIA E (Certificate.Subject r0) of
              Inl err \<Rightarrow> crash ''chain is already validated''
            | Inr subject \<Rightarrow>
                ret (filepath_Join
                       [dir,
                        ''ISD'' @ Sprintf_d (unat (I subject)) @ ''-AS'' @ FileFmt E (A subject)
                        @ ''.'' @ Sprintf_x (big_Bytes (Certificate.SerialNumber r0))
                        @ ''.pem'']))"

subsection \<open>The command\<close>

text \<open>The body of the command (\<open>RunE\<close>) is one function in the source, divided by
  comments into steps. The model has one definition per step and \<open>RunE\<close> chains
  them. A failed write of the CSR or of the request is reported on the standard
  error stream and the run carries on.\<close>

definition step1_createCSR :: "Renew_env \<Rightarrow> flags \<Rightarrow> Certificate list \<Rightarrow> bytes io" where
  "step1_createCSR E flags chain =
     andThen (readECKey E (keyFile flags))
     (\<lambda>key. andThen (index0 chain)
     (\<lambda>c0. andThen (csrTemplate E c0 (Public key) (templateFile flags))
     (\<lambda>t. andThen (act (CertificateRequestCreate t key) (x509_CreateCertificateRequest E t key))
     (\<lambda>csr.
       andThen
         (if csrFile flags \<noteq> [] then
            (let pemCSR = pem_EncodeToMemory E \<lparr>Type = ''CERTIFICATE REQUEST'', Bytes = csr\<rparr>
             in andThen
                  (attempt (act_opt (FileWrite (csrFile flags) pemCSR)
                              (ioutil_WriteFile E (csrFile flags) pemCSR)))
                (\<lambda>r. case r of
                        Some err \<Rightarrow> emit (Stderr (''Failed writing CSR: '' @ Error E err @ newline))
                      | None \<Rightarrow> ret ()))
          else ret ())
       (\<lambda>_. ret csr)))))"

definition step2_createMessenger ::
  "Renew_env \<Rightarrow> flags \<Rightarrow> IA \<Rightarrow> (UDPAddr \<times> UDPAddr \<times> Dialer) io" where
  "step2_createMessenger E flags ca =
     andThen (findLocalAddr E (sciondAddr flags))
     (\<lambda>found.
       let localAddr = (if listen flags \<noteq> None then found\<lparr>Host := listen flags\<rparr> else found);
           remote = \<lparr>UDPAddr.IA = ca, Host = None\<rparr>
       in andThen (buildDialer E (sciondAddr flags) localAddr remote)
          (\<lambda>dialer. ret (localAddr, remote, dialer)))"

definition step3_createRequest ::
  "Renew_env \<Rightarrow> flags \<Rightarrow> Features \<Rightarrow> UDPAddr \<Rightarrow> TRC list \<Rightarrow> Certificate list \<Rightarrow> bytes
   \<Rightarrow> ChainRenewalRequest io" where
  "step3_createRequest E flags feats localAddr trcs chain csr =
     andThen (index0 trcs)
     (\<lambda>trc0. andThen (createSigner E (UDPAddr.IA localAddr) trc0 chain (transportKeyFile flags))
     (\<lambda>signer.
       andThen
         (if \<not> DisableLegacyRequest feats then lift (NewLegacyChainRenewalRequest E csr signer)
          else ret None)
     (\<lambda>legacyReq.
       andThen
         (if \<not> DisableCMSRequest feats then lift (NewChainRenewalRequest E csr signer)
          else ret None)
     (\<lambda>cmsReq.
       let req = \<lparr>SignedRequest = legacyReq, CmsSignedRequest = cmsReq\<rparr> in
       andThen
         (if reqFile flags \<noteq> [] then
            (case CmsSignedRequest req of
               None \<Rightarrow> fail (New ''cannot write request to file: no request created'')
             | Some cms \<Rightarrow>
                 (let pemReq = pem_EncodeToMemory E \<lparr>Type = ''CMS'', Bytes = cms\<rparr>
                  in andThen
                       (attempt (act_opt (FileWrite (reqFile flags) pemReq)
                                   (ioutil_WriteFile E (reqFile flags) pemReq)))
                     (\<lambda>r. case r of
                             Some err \<Rightarrow>
                               emit (Stderr (''Failed writing CSR: '' @ Error E err @ newline))
                           | None \<Rightarrow> ret ())))
          else ret ())
       (\<lambda>_. ret req)))))"

text \<open>The output path: the \<open>out\<close> flag, or the name derived from the renewed leaf in the
  directory of the transport certificate chain.\<close>

definition step5_out :: "'a Repo_env_scheme \<Rightarrow> flags \<Rightarrow> Certificate list \<Rightarrow> string io" where
  "step5_out E flags renewed =
     (if outFile flags = [] then
        outFileFromSubject E renewed (filepath_Dir (transportCertFile flags))
      else ret (outFile flags))"

text \<open>Verification of the renewed chain and, as step 6, the write to disk.\<close>

definition step5_verify :: "Renew_env \<Rightarrow> TRC list \<Rightarrow> Certificate list \<Rightarrow> string \<Rightarrow> unit io" where
  "step5_verify E trcs renewed out =
     (case VerifyChain E renewed trcs of
        Some err \<Rightarrow>
          (let out' = out @ ''.unverified'' in
           andThen (emit (Stdout (''Verification failed, writing chain:  '' @ out' @ newline)))
           (\<lambda>_. andThen (attempt (writeChain E renewed out'))
           (\<lambda>r. andThen
                  (case r of
                     Some werr \<Rightarrow>
                       emit (Stdout (''Failed to write unverified chain:  '' @ Error E werr
                                     @ newline))
                   | None \<Rightarrow> ret ())
           (\<lambda>_. andThen
                  (if maybeMissingTRCInGrace E trcs then
                     andThen (emit (Stdout graceLine))
                     (\<lambda>_. andThen (index0 trcs)
                            (\<lambda>trc0. emit (Stdout (predecessorLine trc0))))
                   else ret ())
           (\<lambda>_. fail (WrapStr ''verification failed'' err))))))
      | None \<Rightarrow>
          andThen (writeChain E renewed out)
          (\<lambda>_. emit (Stdout (''Successfully wrote new chain at '' @ out @ newline))))"

definition RunE :: "Renew_env \<Rightarrow> flags \<Rightarrow> string list \<Rightarrow> unit io" where
  "RunE E flags args =
     andThen
       (if length args \<noteq> 0 then andThen (index0 args) (\<lambda>a. lift (IAFromString E a))
        else ret IA_zero)
     (\<lambda>ca0.
       andThen
         (case setupTracer E ''scion-pki'' (tracer flags) of
            Some err \<Rightarrow> fail (WrapStr ''setting up tracing'' err)
          | None \<Rightarrow> ret ())
     (\<lambda>_. andThen (lift (feature_Parse E (features flags)))
     (\<lambda>feats.
       if DisableCMSRequest feats \<and> DisableLegacyRequest feats then
         fail (New ''both legacy and CMS request disabled'')
       else
         andThen (act (TRCsLoad (trcFiles flags)) (loadTRCs E (trcFiles flags)))
     (\<lambda>trcs. andThen (loadChain E trcs (transportCertFile flags))
     (\<lambda>(chain, transportCA).
       andThen
         (if IA_IsZero E ca0 then
            andThen
              (emit (Stdout (''Extracted remote from transport certificate chain:  ''
                             @ IA_String E transportCA @ newline)))
            (\<lambda>_. ret transportCA)
          else ret ca0)
     (\<lambda>ca. andThen (step1_createCSR E flags chain)
     (\<lambda>csr. andThen (step2_createMessenger E flags ca)
     (\<lambda>(localAddr, remote, dialer).
       andThen (step3_createRequest E flags feats localAddr trcs chain csr)
     (\<lambda>req. andThen (sendRequest E (UDPAddr.IA remote) dialer req)
     (\<lambda>rep. andThen (extractChain E rep, [])
     (\<lambda>renewed. andThen (step5_out E flags renewed)
     (\<lambda>out. step5_verify E trcs renewed out))))))))))))"

text \<open>The command up to the parsed reply (the source's body of \<open>RunE\<close> down to the call
  of \<open>extractChain\<close>): the same chain of steps as in \<open>RunE\<close>, ending with the TRCs that
  \<open>loadTRCs\<close> returned and the renewed chain. Lemma \<open>RunE_after_reply\<close> shows that \<open>RunE\<close>
  is this prefix followed by the output path and step 5.\<close>

definition receiveChain ::
  "Renew_env \<Rightarrow> flags \<Rightarrow> string list \<Rightarrow> (TRC list \<times> Certificate list) io" where
  "receiveChain E flags args =
     andThen
       (if length args \<noteq> 0 then andThen (index0 args) (\<lambda>a. lift (IAFromString E a))
        else ret IA_zero)
     (\<lambda>ca0.
       andThen
         (case setupTracer E ''scion-pki'' (tracer flags) of
            Some err \<Rightarrow> fail (WrapStr ''setting up tracing'' err)
          | None \<Rightarrow> ret ())
     (\<lambda>_. andThen (lift (feature_Parse E (features flags)))
     (\<lambda>feats.
       if DisableCMSRequest feats \<and> DisableLegacyRequest feats then
         fail (New ''both legacy and CMS request disabled'')
       else
         andThen (act (TRCsLoad (trcFiles flags)) (loadTRCs E (trcFiles flags)))
     (\<lambda>trcs. andThen (loadChain E trcs (transportCertFile flags))
     (\<lambda>(chain, transportCA).
       andThen
         (if IA_IsZero E ca0 then
            andThen
              (emit (Stdout (''Extracted remote from transport certificate chain:  ''
                             @ IA_String E transportCA @ newline)))
            (\<lambda>_. ret transportCA)
          else ret ca0)
     (\<lambda>ca. andThen (step1_createCSR E flags chain)
     (\<lambda>csr. andThen (step2_createMessenger E flags ca)
     (\<lambda>(localAddr, remote, dialer).
       andThen (step3_createRequest E flags feats localAddr trcs chain csr)
     (\<lambda>req. andThen (sendRequest E (UDPAddr.IA remote) dialer req)
     (\<lambda>rep. andThen (extractChain E rep, [])
     (\<lambda>renewed. ret (trcs, renewed))))))))))))"

section \<open>Properties of traces\<close>

text \<open>An event transmits when it dials the control service of the CA or sends the
  renewal request. A computation is quiet when none of its events transmits, and
  it halts when, in addition, it does not return a value.\<close>

definition transmits :: "event \<Rightarrow> bool" where
  "transmits ev = (case ev of ServiceDial _ \<Rightarrow> True | RequestSend _ \<Rightarrow> True | _ \<Rightarrow> False)"

definition quiet :: "'a io \<Rightarrow> bool" where
  "quiet m = (\<forall>ev \<in> set (snd m). \<not> transmits ev)"

definition halts :: "'a io \<Rightarrow> bool" where
  "halts m = ((\<forall>x. fst m \<noteq> Ok x) \<and> quiet m)"

text \<open>A computation is silent when it prints nothing on the standard output.\<close>

definition silent :: "'a io \<Rightarrow> bool" where
  "silent m = (\<forall>ev \<in> set (snd m). \<forall>s. ev \<noteq> Stdout s)"

text \<open>A property of every successful run of a computation: of its value and of its
  trace.\<close>

definition ok_only :: "('a \<Rightarrow> event list \<Rightarrow> bool) \<Rightarrow> 'a io \<Rightarrow> bool" where
  "ok_only P m = (\<forall>x t. m = (Ok x, t) \<longrightarrow> P x t)"

section \<open>A concrete scenario\<close>

text \<open>AS 1-ff00:0:110 holds a chain issued by a CA and renews it. The scenario fixes
  every collaborator, so each function of the model can be evaluated on it. The
  hash, the point encoding and the codecs are small stand-ins: a certificate is
  encoded in two bytes and the hash keeps the first 20 bytes of its input, padded
  with zeros.\<close>

definition ia110 :: IA where
  "ia110 = \<lparr>I = 1, A = 0xff0000000110\<rparr>"

definition key110 :: ecdsa_PrivateKey where
  "key110 = ecdsa_PrivateKey (ecdsa_PublicKey P256 17 42) 7"

definition ca_key :: PrivateKey where
  "ca_key = ECDSA_PrivateKey (ecdsa_PrivateKey (ecdsa_PublicKey P256 3 5) 11)"

definition subject110 :: Name where
  "subject110 = Name_zero\<lparr>Name.CommonName := ''1-ff00:0:110 AS certificate''\<rparr>"

definition ca_cert :: Certificate where
  "ca_cert =
     \<lparr>Raw = [0x30, 0x02], SignatureAlgorithm = ECDSAWithSHA256, Version = 3,
      Certificate.SerialNumber = 7,
      Issuer = Name_zero\<lparr>Name.CommonName := ''1-ff00:0:110 Root''\<rparr>,
      Certificate.Subject = Name_zero\<lparr>Name.CommonName := ''1-ff00:0:110 CA''\<rparr>,
      Certificate.NotBefore = 1000, Certificate.NotAfter = 9000,
      KeyUsage = 32, ExtKeyUsage = [], BasicConstraintsValid = True,
      SubjectKeyId = [0xca], AuthorityKeyId = [0x0f],
      Certificate.PublicKey = ECDSA_PublicKey (ecdsa_PublicKey P256 3 5)\<rparr>"

definition old_cert :: Certificate where
  "old_cert =
     \<lparr>Raw = [0x30, 0x00], SignatureAlgorithm = ECDSAWithSHA512, Version = 3,
      Certificate.SerialNumber = 0x0102,
      Issuer = Name_zero\<lparr>Name.CommonName := ''1-ff00:0:110 CA''\<rparr>,
      Certificate.Subject = subject110,
      Certificate.NotBefore = 2000, Certificate.NotAfter = 6000,
      KeyUsage = 1,
      ExtKeyUsage = [ExtKeyUsageServerAuth, ExtKeyUsageClientAuth, ExtKeyUsageTimeStamping],
      BasicConstraintsValid = False,
      SubjectKeyId = [0x01], AuthorityKeyId = [0xca],
      Certificate.PublicKey = ECDSA_PublicKey (ecdsa_PublicKey P256 17 42)\<rparr>"

definition new_cert :: Certificate where
  "new_cert = old_cert\<lparr>Raw := [0x30, 0x01], Certificate.SerialNumber := 0x1a2b,
     Certificate.NotBefore := 5000, Certificate.NotAfter := 7000\<rparr>"

definition csr110 :: CertificateRequest where
  "csr110 =
     \<lparr>CertificateRequest.Subject = subject110,
      CertificateRequest.PublicKey = ECDSA_PublicKey (ecdsa_PublicKey P256 17 42),
      Extensions = [\<lparr>Id = [2, 5, 29, 14], Critical = False, Value = [0xff]\<rparr>],
      ExtraExtensions = []\<rparr>"

definition ca_policy :: CAPolicy where
  "ca_policy = \<lparr>Validity = 2000, Certificate = ca_cert, Signer = ca_key, CurrentTime = 0\<rparr>"

definition trc1 :: TRC where
  "trc1 = \<lparr>ID = \<lparr>ISD = 1, Base = 1, Serial = 3\<rparr>, Content = []\<rparr>"

definition parse_cert :: "bytes \<Rightarrow> error + Certificate" where
  "parse_cert raw =
     (if raw = [0x30, 0x00] then Inr old_cert
      else if raw = [0x30, 0x01] then Inr new_cert
      else if raw = [0x30, 0x02] then Inr ca_cert
      else Inl (External ''x509: malformed certificate''))"

definition two_certs :: "Certificate list \<Rightarrow> error option" where
  "two_certs chain =
     (if length chain = 2 then None else Some (New ''chain must contain two certificates''))"

definition zeros20 :: bytes where
  "zeros20 = [0, 0, 0, 0, 0, 0, 0, 0, 0, 0, 0, 0, 0, 0, 0, 0, 0, 0, 0, 0]"

definition serial110 :: bytes where
  "serial110 = [0, 0, 0, 0, 0, 0, 0, 0, 0, 0, 0, 0, 0, 0, 0, 0, 0, 0, 0x1a, 0x2b]"

definition ca_world :: CA_env where
  "ca_world =
     \<lparr>sha1_Sum = (\<lambda>bs. take 20 (bs @ zeros20)),
      elliptic_Marshal = (\<lambda>c x y. [4, of_int x, of_int y]),
      time_Now = 5000,
      x509_ParseCertificate = parse_cert,
      ValidateChain = two_certs,
      rand_Read = (\<lambda>n. Inr (drop (20 - n) serial110)),
      x509_CreateCertificate = (\<lambda>t parent pub priv. Inr [0x30, 0x01])\<rparr>"

definition world :: Renew_env where
  "world =
     \<lparr>sha1_Sum = (\<lambda>bs. take 20 (bs @ zeros20)),
      elliptic_Marshal = (\<lambda>c x y. [4, of_int x, of_int y]),
      time_Now = 5000,
      x509_ParseCertificate = parse_cert,
      ValidateChain = two_certs,
      IAFromString = (\<lambda>s. if s = ''1-ff00:0:110'' then Inr ia110
                           else Inl (New ''invalid ISD-AS'')),
      IA_IsZero = (\<lambda>ia. I ia = 0 \<and> A ia = 0),
      IA_String = (\<lambda>ia. ''1-ff00:0:110''),
      FileFmt = (\<lambda>as. if as = 0xff0000000110 then ''ff00_0_110'' else Sprintf_d (unat as)),
      Error = (\<lambda>e. case e of New m \<Rightarrow> m | WrapStr m c \<Rightarrow> m | External m \<Rightarrow> m),
      setupTracer = (\<lambda>name agent. None),
      feature_Parse = (\<lambda>fs. Inr \<lparr>DisableLegacyRequest = ''disable_legacy_request'' \<in> set fs,
                                  DisableCMSRequest = ''disable_cms_request'' \<in> set fs\<rparr>),
      VerifyChain = (\<lambda>chain trcs. None),
      InGracePeriod = (\<lambda>trc now. now < 6000),
      ExtractIA = (\<lambda>name. Inr ia110),
      OIDNameIA = [1, 3, 6, 1, 4, 1, 55324, 1, 2, 1],
      OIDExtensionSubjectKeyID = [2, 5, 29, 14],
      OIDExtensionKeyUsage = [2, 5, 29, 15],
      OIDExtKeyUsageServerAuth = [1, 3, 6, 1, 5, 5, 7, 3, 1],
      OIDExtKeyUsageClientAuth = [1, 3, 6, 1, 5, 5, 7, 3, 2],
      OIDExtKeyUsageTimeStamping = [1, 3, 6, 1, 5, 5, 7, 3, 8],
      extendedKeyUsages = (\<lambda>oids. \<lparr>Id = [2, 5, 29, 37], Critical = False, Value = []\<rparr>),
      SelectSignatureAlgorithm = (\<lambda>pub. Inr 1),
      NewLegacyChainRenewalRequest = (\<lambda>csr signer. Inr (Some (SignedMessage csr))),
      NewChainRenewalRequest = (\<lambda>csr signer. Inr (Some csr)),
      ExtractUnverifiedBody =
        (\<lambda>m. case m of None \<Rightarrow> Inl (New ''nil message'') | Some (SignedMessage b) \<Rightarrow> Inr b),
      ParseContentInfo = (\<lambda>b. Inr (ContentInfo b)),
      SignedDataContent =
        (\<lambda>ci. case ci of ContentInfo b \<Rightarrow> Inr \<lparr>EncapContentInfo = EncapsulatedContentInfo b\<rparr>),
      DataEContent = (\<lambda>e. case e of EncapsulatedContentInfo b \<Rightarrow> Inr b),
      pem_Decode = (\<lambda>raw. if raw = [] then None
                          else Some \<lparr>Type = ''PRIVATE KEY'', Bytes = raw\<rparr>),
      pem_EncodeToMemory = (\<lambda>b. Bytes b),
      x509_ParsePKCS8PrivateKey =
        (\<lambda>b. if b = [1] then Inr (ECDSA_PrivateKey key110)
              else if b = [2] then Inr (RSA_PrivateKey 3233 17 413)
              else Inl (External ''x509: failed to parse private key'')),
      x509_ParseCertificates =
        (\<lambda>raw. if raw = [0x30, 0x01, 0x30, 0x02] then Inr [new_cert, ca_cert]
                else Inl (External ''x509: malformed certificate'')),
      json_Unmarshal = (\<lambda>raw. Inl (External ''unexpected end of JSON input'')),
      asn1_Marshal = (\<lambda>b. Inr b),
      asn1_Marshal_BitString = (\<lambda>b n. Inr b),
      proto_Unmarshal =
        (\<lambda>body. if body = [] then Inr \<lparr>Chain = None\<rparr>
                 else Inr \<lparr>Chain = Some \<lparr>AsCert = take 2 body, CaCert = drop 2 body\<rparr>\<rparr>),
      loadTRCs = (\<lambda>files. Inr [trc1]),
      ReadPEMCerts = (\<lambda>file. Inr [old_cert, ca_cert]),
      ioutil_ReadFile =
        (\<lambda>file. if file = ''ec.key'' then Inr [1]
                 else if file = ''rsa.key'' then Inr [2]
                 else Inl (External ''no such file or directory'')),
      ioutil_WriteFile = (\<lambda>file b. None),
      os_Create = (\<lambda>file. None),
      pem_Encode = (\<lambda>file b. None),
      file_Close = (\<lambda>file. None),
      x509_CreateCertificateRequest = (\<lambda>t key. Inr [0x30, 0x03]),
      sciond_Connect = (\<lambda>sds. None),
      sciond_LocalIA = Inr ia110,
      DefaultLocalIP = Inr [127, 0, 0, 1],
      snet_Dial = (\<lambda>localAddr remote. None),
      grpc_Dial = (\<lambda>dialer dst. None),
      ChainRenewal =
        (\<lambda>req. Inr \<lparr>SignedResponse = None, CmsSignedResponse = [0x30, 0x01, 0x30, 0x02]\<rparr>)\<rparr>"

definition flags110 :: flags where
  "flags110 =
     \<lparr>keyFile = ''ec.key'', outFile = [], csrFile = [], reqFile = [], templateFile = [],
      transportCertFile = ''/certs/old.pem'', transportKeyFile = ''ec.key'',
      trcFiles = [''ISD1-B1-S3.trc''], dispatcherPath = ''/run/shm/dispatcher/default.sock'',
      sciondAddr = ''127.0.0.1:30255'', listen = None, timeout = 5000000000,
      features = [], tracer = []\<rparr>"

text \<open>The template that \<open>CreateChain\<close> builds in the scenario, a request to export
  the signed request with the CMS encoding disabled, a run with both encodings
  disabled, a world in which the renewed chain does not verify, and a legacy
  reply whose body carries no chain.\<close>

definition tmpl110 :: Certificate where
  "tmpl110 =
     tmpl ca_policy serial110 subject110
       \<lparr>NotBefore = 5000, NotAfter = 7000\<rparr>
       [4, 17, 42, 0, 0, 0, 0, 0, 0, 0, 0, 0, 0, 0, 0, 0, 0, 0, 0, 0]"

definition flags_req_out :: flags where
  "flags_req_out = flags110\<lparr>reqFile := ''req.pem'', features := [''disable_cms_request'']\<rparr>"

definition flags_none :: flags where
  "flags_none =
     flags110\<lparr>features := [''disable_cms_request'', ''disable_legacy_request'']\<rparr>"

definition unknown_authority :: error where
  "unknown_authority = External ''x509: certificate signed by unknown authority''"

definition world_unverified :: Renew_env where
  "world_unverified =
     world\<lparr>VerifyChain :=
             (\<lambda>chain trcs. if chain = [new_cert, ca_cert] then Some unknown_authority
                            else None)\<rparr>"

text \<open>The values that a run of the command passes on in the scenario: the CSR
  template, the local and the remote address, and the request.\<close>

definition csr_template110 :: CertificateRequest where
  "csr_template110 =
     \<lparr>CertificateRequest.Subject = subject110,
      CertificateRequest.PublicKey = NilPublicKey,
      Extensions = [],
      ExtraExtensions =
        [\<lparr>Id = [2, 5, 29, 15], Critical = True, Value = [0x80]\<rparr>,
         \<lparr>Id = [2, 5, 29, 37], Critical = False, Value = []\<rparr>,
         \<lparr>Id = [2, 5, 29, 14], Critical = False,
          Value = [4, 17, 42, 0, 0, 0, 0, 0, 0, 0, 0, 0, 0, 0, 0, 0, 0, 0, 0, 0]\<rparr>]\<rparr>"

definition local110 :: UDPAddr where
  "local110 = \<lparr>UDPAddr.IA = ia110, Host = Some [127, 0, 0, 1]\<rparr>"

definition remote110 :: UDPAddr where
  "remote110 = \<lparr>UDPAddr.IA = ia110, Host = None\<rparr>"

definition request110 :: ChainRenewalRequest where
  "request110 =
     \<lparr>SignedRequest = Some (SignedMessage [0x30, 0x03]), CmsSignedRequest = Some [0x30, 0x03]\<rparr>"

text \<open>The actions of a run in the scenario up to the parsed reply; a run that is
  given three TRC files, two of them copies of the superseded TRC with serial 1, of
  which \<open>loadTRCs\<close> uses the one active TRC; and a run that is given the TRC and
  its predecessor, in a world in which \<open>loadTRCs\<close> returns both.\<close>

definition pre110 :: "event list" where
  "pre110 =
     [TRCsLoad [''ISD1-B1-S3.trc''],
      PEMCertsRead ''/certs/old.pem'',
      Stdout (''Extracted remote from transport certificate chain:  1-ff00:0:110'' @ newline),
      FileRead ''ec.key'',
      CertificateRequestCreate csr_template110 key110,
      DaemonConnect ''127.0.0.1:30255'', DaemonLocalIA, DaemonLocalIP,
      DaemonConnect ''127.0.0.1:30255'',
      NetDial local110 remote110,
      FileRead ''ec.key'',
      ServiceDial ia110,
      RequestSend request110,
      ConnClose]"

definition flags_three_trcs :: flags where
  "flags_three_trcs =
     flags110\<lparr>trcFiles := [''ISD1-B1-S1.trc'', ''backup/ISD1-B1-S1.trc'', ''ISD1-B1-S3.trc'']\<rparr>"

definition flags_two_trcs :: flags where
  "flags_two_trcs = flags110\<lparr>trcFiles := [''ISD1-B1-S2.trc'', ''ISD1-B1-S3.trc'']\<rparr>"

definition trc_prev :: TRC where
  "trc_prev = \<lparr>ID = \<lparr>ISD = 1, Base = 1, Serial = 2\<rparr>, Content = []\<rparr>"

definition world_two_trcs :: Renew_env where
  "world_two_trcs = world_unverified\<lparr>loadTRCs := (\<lambda>files. Inr [trc1, trc_prev])\<rparr>"

definition reply_no_chain :: ChainRenewalResponse where
  "reply_no_chain = \<lparr>SignedResponse = Some (SignedMessage []), CmsSignedResponse = []\<rparr>"

section \<open>Sequencing lemmas\<close>

lemma andThen_Ok [simp]: "andThen (Ok x, t) f = (fst (f x), t @ snd (f x))"
  by (simp add: andThen_def split: prod.splits)

lemma andThen_Err [simp]: "andThen (Err e, t) f = (Err e, t)"
  by (simp add: andThen_def)

lemma andThen_Panic [simp]: "andThen (Panic s, t) f = (Panic s, t)"
  by (simp add: andThen_def)

lemma andThen_ret [simp]: "andThen (ret x) f = f x"
  by (simp add: ret_def)

lemma andThen_fail [simp]: "andThen (fail e) f = fail e"
  by (simp add: fail_def)

lemma andThen_crash [simp]: "andThen (crash s) f = crash s"
  by (simp add: crash_def)

lemma lift_Inr [simp]: "lift (Inr x) = ret x"
  by (simp add: lift_def)

lemma lift_Inl [simp]: "lift (Inl e) = fail e"
  by (simp add: lift_def)

lemma snd_andThen:
  "snd (andThen m f) = snd m @ (case fst m of Ok x \<Rightarrow> snd (f x) | _ \<Rightarrow> [])"
  by (cases m; cases "fst m") (auto simp: andThen_def split: prod.splits res.splits)

lemma fst_andThen:
  "fst (andThen m f) =
     (case fst m of Ok x \<Rightarrow> fst (f x) | Err e \<Rightarrow> Err e | Panic s \<Rightarrow> Panic s)"
  by (cases m; cases "fst m") (auto simp: andThen_def split: prod.splits res.splits)

named_theorems quiet_intros

lemma quiet_ret [quiet_intros]: "quiet (ret x)"
  by (simp add: quiet_def ret_def)

lemma quiet_fail [quiet_intros]: "quiet (fail e)"
  by (simp add: quiet_def fail_def)

lemma quiet_crash [quiet_intros]: "quiet (crash s)"
  by (simp add: quiet_def crash_def)

lemma quiet_pure [quiet_intros]: "quiet (r, [])"
  by (simp add: quiet_def)

lemma quiet_lift [quiet_intros]: "quiet (lift r)"
  by (cases r) (simp_all add: quiet_def ret_def fail_def)

lemma quiet_index0 [quiet_intros]: "quiet (index0 xs)"
  by (cases xs) (simp_all add: quiet_def index0_def ret_def crash_def)

lemma quiet_emit [quiet_intros]: "\<not> transmits ev \<Longrightarrow> quiet (emit ev)"
  by (simp add: quiet_def emit_def)

lemma quiet_act [quiet_intros]: "\<not> transmits ev \<Longrightarrow> quiet (act ev r)"
  by (cases r) (simp_all add: quiet_def act_def)

lemma quiet_act_opt [quiet_intros]: "\<not> transmits ev \<Longrightarrow> quiet (act_opt ev r)"
  by (cases r) (simp_all add: quiet_def act_opt_def)

lemma quiet_wrap [quiet_intros]: "quiet m \<Longrightarrow> quiet (wrap msg m)"
  by (cases m; cases "fst m") (auto simp: quiet_def wrap_def)

lemma quiet_attempt [quiet_intros]: "quiet m \<Longrightarrow> quiet (attempt m)"
  by (cases m; cases "fst m") (auto simp: quiet_def attempt_def)

lemma quiet_andThen [quiet_intros]:
  "quiet m \<Longrightarrow> (\<And>x. quiet (f x)) \<Longrightarrow> quiet (andThen m f)"
  by (auto simp: quiet_def snd_andThen split: res.splits)

lemma halts_fail: "halts (fail e)"
  by (simp add: halts_def quiet_fail) (simp add: fail_def)

lemma halts_bind:
  "quiet m \<Longrightarrow> (\<And>x. fst m = Ok x \<Longrightarrow> halts (f x)) \<Longrightarrow> halts (andThen m f)"
  by (cases m; cases "fst m") (auto simp: halts_def quiet_def)

lemma halts_first: "halts m \<Longrightarrow> halts (andThen m f)"
  by (cases m; cases "fst m") (auto simp: halts_def quiet_def)

lemma andThen_assoc: "andThen (andThen m f) g = andThen m (\<lambda>x. andThen (f x) g)"
  by (cases m; cases "fst m") (auto simp: andThen_def split: prod.splits res.splits)

lemma andThen_if: "andThen (if c then a else b) f = (if c then andThen a f else andThen b f)"
  by simp

lemma andThen_case_prod:
  "andThen (case p of (a, b) \<Rightarrow> m a b) f = (case p of (a, b) \<Rightarrow> andThen (m a b) f)"
  by (cases p) simp

lemma andThen_Ok_iff:
  "andThen m f = (Ok y, t) \<longleftrightarrow> (\<exists>x t1 t2. m = (Ok x, t1) \<and> f x = (Ok y, t2) \<and> t = t1 @ t2)"
  by (cases m; cases "fst m"; cases "f (case fst m of Ok x \<Rightarrow> x)")
     (auto simp: andThen_def split: prod.splits)

named_theorems silent_intros

lemma silent_ret [silent_intros]: "silent (ret x)"
  by (simp add: silent_def ret_def)

lemma silent_fail [silent_intros]: "silent (fail e)"
  by (simp add: silent_def fail_def)

lemma silent_crash [silent_intros]: "silent (crash s)"
  by (simp add: silent_def crash_def)

lemma silent_pure [silent_intros]: "silent (r, [])"
  by (simp add: silent_def)

lemma silent_lift [silent_intros]: "silent (lift r)"
  by (cases r) (simp_all add: silent_def ret_def fail_def)

lemma silent_index0 [silent_intros]: "silent (index0 xs)"
  by (cases xs) (simp_all add: silent_def index0_def ret_def crash_def)

lemma silent_emit [silent_intros]: "\<forall>s. ev \<noteq> Stdout s \<Longrightarrow> silent (emit ev)"
  by (simp add: silent_def emit_def)

lemma silent_act [silent_intros]: "\<forall>s. ev \<noteq> Stdout s \<Longrightarrow> silent (act ev r)"
  by (cases r) (simp_all add: silent_def act_def)

lemma silent_act_opt [silent_intros]: "\<forall>s. ev \<noteq> Stdout s \<Longrightarrow> silent (act_opt ev r)"
  by (cases r) (simp_all add: silent_def act_opt_def)

lemma silent_wrap [silent_intros]: "silent m \<Longrightarrow> silent (wrap msg m)"
  by (cases m; cases "fst m") (auto simp: silent_def wrap_def)

lemma silent_attempt [silent_intros]: "silent m \<Longrightarrow> silent (attempt m)"
  by (cases m; cases "fst m") (auto simp: silent_def attempt_def)

lemma silent_deferred [silent_intros]:
  "silent m \<Longrightarrow> \<forall>s. ev \<noteq> Stdout s \<Longrightarrow> silent (deferred m ev)"
  by (auto simp: silent_def deferred_def)

lemma silent_andThen [silent_intros]:
  "silent m \<Longrightarrow> (\<And>x. silent (f x)) \<Longrightarrow> silent (andThen m f)"
  by (auto simp: silent_def snd_andThen split: res.splits)

lemma ok_only_andThen:
  "ok_only (\<lambda>x t1. ok_only (\<lambda>y t2. P y (t1 @ t2)) (f x)) m \<Longrightarrow> ok_only P (andThen m f)"
  by (auto simp: ok_only_def andThen_Ok_iff)

lemma ok_only_ret: "P x [] \<Longrightarrow> ok_only P (ret x)"
  by (simp add: ok_only_def ret_def)

lemma ok_only_fail: "ok_only P (fail e)"
  by (simp add: ok_only_def fail_def)

lemma ok_only_crash: "ok_only P (crash s)"
  by (simp add: ok_only_def crash_def)

lemma ok_only_pure: "(\<And>x. r = Ok x \<Longrightarrow> P x []) \<Longrightarrow> ok_only P (r, [])"
  by (simp add: ok_only_def)

lemma ok_only_lift: "(\<And>x. r = Inr x \<Longrightarrow> P x []) \<Longrightarrow> ok_only P (lift r)"
  by (cases r) (simp_all add: ok_only_def ret_def fail_def)

lemma ok_only_act: "(\<And>x. r = Inr x \<Longrightarrow> P x [ev]) \<Longrightarrow> ok_only P (act ev r)"
  by (cases r) (simp_all add: ok_only_def act_def)

lemma ok_only_emit: "P () [ev] \<Longrightarrow> ok_only P (emit ev)"
  by (simp add: ok_only_def emit_def)

lemma ok_only_index0: "(\<And>x xs'. xs = x # xs' \<Longrightarrow> P x []) \<Longrightarrow> ok_only P (index0 xs)"
  by (cases xs) (simp_all add: ok_only_def index0_def ret_def crash_def)

lemma ok_only_silent:
  assumes "silent m" and "\<And>x t. \<forall>s. Stdout s \<notin> set t \<Longrightarrow> P x t"
  shows "ok_only P m"
  unfolding ok_only_def
proof (intro allI impI)
  fix x t
  assume "m = (Ok x, t)"
  with assms(1) have "\<forall>s. Stdout s \<notin> set t"
    by (auto simp: silent_def)
  then show "P x t"
    by (rule assms(2))
qed

section \<open>The CA issuance policy\<close>

text \<open>
  C1. For every pair of validity intervals, \<open>Covers outer inner\<close> is true exactly
  when \<open>outer\<close> starts no later than \<open>inner\<close> and \<open>inner\<close> ends no later than \<open>outer\<close>;
  it is false as soon as one of the two bounds violates containment.
\<close>

theorem Covers_iff_containment:
  "(Covers outer inner \<longleftrightarrow>
      NotBefore outer \<le> NotBefore inner \<and> NotAfter inner \<le> NotAfter outer)
   \<and> (NotBefore inner < NotBefore outer \<or> NotAfter outer < NotAfter inner
        \<longrightarrow> \<not> Covers outer inner)"
  by (auto simp: Covers_def)

theorem Covers_iff_containment_witness:
  "NotAfter \<lparr>NotBefore = 1000, NotAfter = 9000\<rparr> < NotAfter \<lparr>NotBefore = 5000, NotAfter = 10000\<rparr>
   \<and> \<not> Covers \<lparr>NotBefore = 1000, NotAfter = 9000\<rparr> \<lparr>NotBefore = 5000, NotAfter = 10000\<rparr>
   \<and> Covers \<lparr>NotBefore = 1000, NotAfter = 9000\<rparr> \<lparr>NotBefore = 5000, NotAfter = 7000\<rparr>"
  using Covers_iff_containment
          [of "\<lparr>NotBefore = 1000, NotAfter = 9000\<rparr>" "\<lparr>NotBefore = 5000, NotAfter = 10000\<rparr>"]
        Covers_iff_containment
          [of "\<lparr>NotBefore = 1000, NotAfter = 9000\<rparr>" "\<lparr>NotBefore = 5000, NotAfter = 7000\<rparr>"]
  by simp

text \<open>
  C2. Whenever the window from the signing time \<open>now\<close> (the policy's \<open>CurrentTime\<close>, or
  the clock when that is zero) to \<open>now\<close> plus the configured validity is not inside
  the validity window of the CA certificate, \<open>CreateChain\<close> returns the error
  "AS certificate validity not covered" for every CSR, returns no chain, and has
  performed no action: no random bytes were read and no certificate was created.
\<close>

theorem CreateChain_rejects_uncovered_validity:
  assumes "now = (if IsZero (CurrentTime ca) then time_Now E else CurrentTime ca)"
    and "now < Certificate.NotBefore (Certificate ca)
         \<or> Certificate.NotAfter (Certificate ca) < now + sint (Validity ca)"
  shows "CreateChain E ca csr = (Err (New ''AS certificate validity not covered''), [])"
  using assms by (auto simp: CreateChain_def Covers_def Add_def fail_def Let_def)

theorem CreateChain_rejects_uncovered_validity_witness:
  "(5000 :: int) = (if IsZero (CurrentTime (ca_policy\<lparr>Validity := 5000\<rparr>))
                    then time_Now ca_world else CurrentTime (ca_policy\<lparr>Validity := 5000\<rparr>))
   \<and> Certificate.NotAfter (Certificate (ca_policy\<lparr>Validity := 5000\<rparr>))
       < 5000 + sint (Validity (ca_policy\<lparr>Validity := 5000\<rparr>))
   \<and> CreateChain ca_world (ca_policy\<lparr>Validity := 5000\<rparr>) csr110
       = (Err (New ''AS certificate validity not covered''), [])"
proof -
  have now: "(5000 :: int) = (if IsZero (CurrentTime (ca_policy\<lparr>Validity := 5000\<rparr>))
                    then time_Now ca_world else CurrentTime (ca_policy\<lparr>Validity := 5000\<rparr>))"
    by (simp add: ca_policy_def ca_world_def IsZero_def)
  have late: "Certificate.NotAfter (Certificate (ca_policy\<lparr>Validity := 5000\<rparr>))
                < 5000 + sint (Validity (ca_policy\<lparr>Validity := 5000\<rparr>))"
    by (simp add: ca_policy_def ca_cert_def)
  from late have out: "5000 < Certificate.NotBefore (Certificate (ca_policy\<lparr>Validity := 5000\<rparr>))
      \<or> Certificate.NotAfter (Certificate (ca_policy\<lparr>Validity := 5000\<rparr>))
          < 5000 + sint (Validity (ca_policy\<lparr>Validity := 5000\<rparr>))"
    by (rule disjI2)
  from CreateChain_rejects_uncovered_validity [OF now out, of csr110] now late
  show ?thesis by blast
qed

text \<open>What \<open>CreateChain\<close> hands to the certificate encoder, for every policy and CSR:
  the template asks for ECDSA with SHA-512, the signer is the CA's key, and the
  subject key identifier is the one computed from the public key of the CSR.\<close>

lemma CreateChain_encoder_call:
  assumes "CertificateCreate t parent pub priv \<in> set (snd (CreateChain E ca csr))"
  shows "Certificate.SignatureAlgorithm t = ECDSAWithSHA512 \<and> priv = Signer ca
     \<and> parent = Certificate ca \<and> pub = CertificateRequest.PublicKey csr
     \<and> SubjectKeyID E (CertificateRequest.PublicKey csr) = Inr (SubjectKeyId t)"
  using assms
  by (auto simp: CreateChain_def Let_def fail_def ret_def act_def lift_def wrap_def
        andThen_def tmpl_def
      split: if_splits sum.splits option.splits prod.splits res.splits)

lemma CreateChain_scenario:
  "CreateChain ca_world ca_policy csr110 =
     (Ok [new_cert, ca_cert],
      [RandRead 20,
       CertificateCreate tmpl110 ca_cert (ECDSA_PublicKey (ecdsa_PublicKey P256 17 42)) ca_key])"
  by (simp add: CreateChain_def ca_world_def ca_policy_def csr110_def tmpl110_def IsZero_def
      Covers_def Add_def ca_cert_def act_def wrap_def subject110_def Name_zero_def
      parse_cert_def two_certs_def ret_def Let_def zeros20_def)

text \<open>
  C3. The leaf certificate is to be signed with the CA's private key using the
  signature algorithm that the CA declares. In the scenario the CA certificate
  declares ECDSA with SHA-256 and its key is on P-256; \<open>CreateChain\<close> accepts the
  CSR and hands the CA's key to the encoder, but the template it hands over asks
  for ECDSA with SHA-512, the constant of the source.
\<close>

theorem CreateChain_requests_ECDSAWithSHA512:
  "CreateChain ca_world ca_policy csr110 =
     (Ok [new_cert, ca_cert],
      [RandRead 20,
       CertificateCreate tmpl110 ca_cert (ECDSA_PublicKey (ecdsa_PublicKey P256 17 42))
         (Signer ca_policy)])
   \<and> Certificate.SignatureAlgorithm tmpl110 = ECDSAWithSHA512
   \<and> Certificate.SignatureAlgorithm (Certificate ca_policy) = ECDSAWithSHA256"
  by (simp add: CreateChain_scenario)
     (simp add: tmpl110_def tmpl_def ca_policy_def ca_cert_def)

text \<open>
  C4. The subject key identifier is a function of the public key alone: for an
  ECDSA key it is the SHA-1 hash of the marshaled point, so computing it again
  from the same key gives the same bytes. \<open>CreateChain\<close> does not depend on the
  extensions that the CSR carries, and every template it hands to the encoder
  holds the identifier computed from the CSR's public key.
\<close>

theorem SubjectKeyID_from_public_key:
  "SubjectKeyID E (ECDSA_PublicKey (ecdsa_PublicKey c x y))
     = Inr (sha1_Sum E (elliptic_Marshal E c x y))
   \<and> CreateChain E ca (csr\<lparr>Extensions := exts, ExtraExtensions := exts'\<rparr>)
       = CreateChain E ca csr
   \<and> (\<forall>t parent pub priv.
         CertificateCreate t parent pub priv \<in> set (snd (CreateChain E ca csr))
         \<longrightarrow> SubjectKeyID E (CertificateRequest.PublicKey csr) = Inr (SubjectKeyId t))"
proof (intro conjI allI impI)
  show "SubjectKeyID E (ECDSA_PublicKey (ecdsa_PublicKey c x y))
          = Inr (sha1_Sum E (elliptic_Marshal E c x y))"
    by simp
  show "CreateChain E ca (csr\<lparr>Extensions := exts, ExtraExtensions := exts'\<rparr>)
          = CreateChain E ca csr"
    by (simp add: CreateChain_def Let_def)
  show "SubjectKeyID E (CertificateRequest.PublicKey csr) = Inr (SubjectKeyId t)"
    if "CertificateCreate t parent pub priv \<in> set (snd (CreateChain E ca csr))"
    for t parent pub priv
    using CreateChain_encoder_call [OF that] by simp
qed

theorem SubjectKeyID_from_public_key_witness:
  "CertificateCreate tmpl110 ca_cert (ECDSA_PublicKey (ecdsa_PublicKey P256 17 42)) ca_key
     \<in> set (snd (CreateChain ca_world ca_policy csr110))
   \<and> SubjectKeyID ca_world (CertificateRequest.PublicKey csr110) = Inr (SubjectKeyId tmpl110)
   \<and> SubjectKeyId tmpl110 = sha1_Sum ca_world (elliptic_Marshal ca_world P256 17 42)"
proof -
  have ev: "CertificateCreate tmpl110 ca_cert (ECDSA_PublicKey (ecdsa_PublicKey P256 17 42)) ca_key
              \<in> set (snd (CreateChain ca_world ca_policy csr110))"
    by (simp add: CreateChain_scenario)
  from SubjectKeyID_from_public_key [where E = ca_world and ca = ca_policy and csr = csr110] ev
  have skid: "SubjectKeyID ca_world (CertificateRequest.PublicKey csr110)
                = Inr (SubjectKeyId tmpl110)"
    by blast
  have "SubjectKeyId tmpl110 = sha1_Sum ca_world (elliptic_Marshal ca_world P256 17 42)"
    by (simp add: tmpl110_def tmpl_def ca_world_def zeros20_def)
  with ev skid show ?thesis by simp
qed

section \<open>The renewal command\<close>

subsection \<open>Reading the private key\<close>

text \<open>
  C9. When the key file can be read, holds a PEM block, and the block parses as a
  PKCS#8 private key, \<open>readECKey\<close> returns the error "only ecdsa keys are supported"
  and no key for every key that is not an ECDSA key, and returns the key when it
  is an ECDSA key.
\<close>

theorem readECKey_ecdsa_only:
  assumes "ioutil_ReadFile E file = Inr raw"
    and "pem_Decode E raw = Some block"
    and "x509_ParsePKCS8PrivateKey E (Bytes block) = Inr key"
  shows "((\<forall>v. key \<noteq> ECDSA_PrivateKey v) \<longrightarrow>
            readECKey E file = (Err (New ''only ecdsa keys are supported''), [FileRead file]))
       \<and> (\<forall>v. key = ECDSA_PrivateKey v \<longrightarrow> readECKey E file = (Ok v, [FileRead file]))"
  using assms
  by (cases key) (simp_all add: readECKey_def act_def ret_def fail_def)

theorem readECKey_ecdsa_only_witness:
  "ioutil_ReadFile world ''rsa.key'' = Inr [2]
   \<and> pem_Decode world [2] = Some \<lparr>Type = ''PRIVATE KEY'', Bytes = [2]\<rparr>
   \<and> x509_ParsePKCS8PrivateKey world [2] = Inr (RSA_PrivateKey 3233 17 413)
   \<and> readECKey world ''rsa.key''
       = (Err (New ''only ecdsa keys are supported''), [FileRead ''rsa.key''])
   \<and> ioutil_ReadFile world ''ec.key'' = Inr [1]
   \<and> pem_Decode world [1] = Some \<lparr>Type = ''PRIVATE KEY'', Bytes = [1]\<rparr>
   \<and> x509_ParsePKCS8PrivateKey world [1] = Inr (ECDSA_PrivateKey key110)
   \<and> readECKey world ''ec.key'' = (Ok key110, [FileRead ''ec.key''])"
proof -
  have r1: "ioutil_ReadFile world ''rsa.key'' = Inr [2]"
    and d1: "pem_Decode world [2] = Some \<lparr>Type = ''PRIVATE KEY'', Bytes = [2]\<rparr>"
    and p1: "x509_ParsePKCS8PrivateKey world (Bytes \<lparr>Type = ''PRIVATE KEY'', Bytes = [2]\<rparr>)
               = Inr (RSA_PrivateKey 3233 17 413)"
    and r2: "ioutil_ReadFile world ''ec.key'' = Inr [1]"
    and d2: "pem_Decode world [1] = Some \<lparr>Type = ''PRIVATE KEY'', Bytes = [1]\<rparr>"
    and p2: "x509_ParsePKCS8PrivateKey world (Bytes \<lparr>Type = ''PRIVATE KEY'', Bytes = [1]\<rparr>)
               = Inr (ECDSA_PrivateKey key110)"
    by (simp_all add: world_def)
  from readECKey_ecdsa_only [OF r1 d1 p1]
  have rsa: "readECKey world ''rsa.key''
               = (Err (New ''only ecdsa keys are supported''), [FileRead ''rsa.key''])"
    by simp
  from readECKey_ecdsa_only [OF r2 d2 p2]
  have ec: "readECKey world ''ec.key'' = (Ok key110, [FileRead ''ec.key''])"
    by simp
  from r1 d1 p1 r2 d2 p2 rsa ec show ?thesis by simp
qed

subsection \<open>Parsing the reply\<close>

text \<open>The choice of the encoding, and what a returned chain satisfies. On the legacy
  path the chain has two certificates by construction; on the CMS path its
  length is whatever \<open>ValidateChain\<close> accepts.\<close>

lemma extractChain_empty_cms:
  "CmsSignedResponse rep = [] \<Longrightarrow> extractChain E rep = extractChainLegacy E rep"
  by (simp add: extractChain_def)

lemma extractChain_cms_ignores_legacy:
  "CmsSignedResponse rep \<noteq> [] \<Longrightarrow>
   extractChain E (rep\<lparr>SignedResponse := other\<rparr>) = extractChain E rep"
  by (simp add: extractChain_def)

lemma extractChainLegacy_Ok:
  "extractChainLegacy E rep = Ok chain \<Longrightarrow> length chain = 2 \<and> ValidateChain E chain = None"
  by (auto simp: extractChainLegacy_def split: sum.splits option.splits)

lemma extractChain_Ok:
  "extractChain E rep = Ok chain \<Longrightarrow> ValidateChain E chain = None"
  by (auto simp: extractChain_def dest: extractChainLegacy_Ok
      split: sum.splits option.splits if_splits)

lemma extractChain_absent_chain:
  assumes "CmsSignedResponse rep = []"
    and "ExtractUnverifiedBody E (SignedResponse rep) = Inr body"
    and "proto_Unmarshal E body = Inr replyBody"
    and "ChainRenewalResponseBody.Chain replyBody = None"
  shows "extractChain E rep = Panic ''nil pointer dereference''"
  using assms by (simp add: extractChain_def extractChainLegacy_def)

text \<open>
  C5. Every reply is to give either one chain of two certificates or a parsing
  error. In the scenario the reply has no CMS part and its legacy part is a
  signed message with an empty body; the body unmarshals to a message without
  a chain, and \<open>extractChain\<close>, which reads \<open>replyBody.Chain.AsCert\<close> without a nil
  check, panics: it returns neither a chain nor an error.
\<close>

theorem extractChain_absent_chain_panics:
  "CmsSignedResponse reply_no_chain = []
   \<and> ExtractUnverifiedBody world (SignedResponse reply_no_chain) = Inr []
   \<and> proto_Unmarshal world [] = Inr \<lparr>Chain = None\<rparr>
   \<and> extractChain world reply_no_chain = Panic ''nil pointer dereference''"
proof -
  have c: "CmsSignedResponse reply_no_chain = []"
    and b: "ExtractUnverifiedBody world (SignedResponse reply_no_chain) = Inr []"
    and u: "proto_Unmarshal world [] = Inr \<lparr>Chain = None\<rparr>"
    by (simp_all add: reply_no_chain_def world_def)
  from extractChain_absent_chain [OF c b u] c b u show ?thesis by simp
qed

subsection \<open>Both encodings disabled\<close>

text \<open>
  C7. When the feature flags disable both the legacy and the CMS request, the
  command ends with an error and has performed no action at all: no file was
  read, no CSR was created, nothing was dialed or sent. When the positional
  argument parses and the tracer is set up, the error is "both legacy and CMS
  request disabled".
\<close>

theorem both_encodings_disabled:
  assumes "feature_Parse E (features flags) = Inr feats"
    and "DisableCMSRequest feats" and "DisableLegacyRequest feats"
  shows "snd (RunE E flags args) = []
     \<and> (\<exists>err. fst (RunE E flags args) = Err err)
     \<and> ((args = [] \<or> (\<exists>ia. IAFromString E (hd args) = Inr ia))
          \<and> setupTracer E ''scion-pki'' (tracer flags) = None
        \<longrightarrow> RunE E flags args = (Err (New ''both legacy and CMS request disabled''), []))"
  using assms
  by (cases args; cases "IAFromString E (hd args)";
      cases "setupTracer E ''scion-pki'' (tracer flags)")
     (auto simp: RunE_def index0_def ret_def fail_def)

theorem both_encodings_disabled_witness:
  "feature_Parse world (features flags_none)
     = Inr \<lparr>DisableLegacyRequest = True, DisableCMSRequest = True\<rparr>
   \<and> setupTracer world ''scion-pki'' (tracer flags_none) = None
   \<and> RunE world flags_none [] = (Err (New ''both legacy and CMS request disabled''), [])"
proof -
  have f: "feature_Parse world (features flags_none)
             = Inr \<lparr>DisableLegacyRequest = True, DisableCMSRequest = True\<rparr>"
    and t: "setupTracer world ''scion-pki'' (tracer flags_none) = None"
    by (simp_all add: world_def flags_none_def flags110_def)
  from both_encodings_disabled [OF f, of "[]"] t
  have "RunE world flags_none [] = (Err (New ''both legacy and CMS request disabled''), [])"
    by simp
  with f t show ?thesis by simp
qed

subsection \<open>The command up to the parsed reply, and after it\<close>

text \<open>The steps before step 5 print nothing on the standard output.\<close>

lemma silent_readECKey [silent_intros]: "silent (readECKey E file)"
  unfolding readECKey_def
  by (auto intro!: silent_intros split: option.splits PrivateKey.splits)

lemma silent_createSigner [silent_intros]: "silent (createSigner E ia trc chain file)"
  unfolding createSigner_def
  by (intro silent_intros)

lemma silent_csrTemplate [silent_intros]: "silent (csrTemplate E prev pub file)"
  unfolding csrTemplate_def subjectFromTemplate_def readVars_def
  by (auto intro!: silent_intros)

lemma silent_step1: "silent (step1_createCSR E flags chain)"
  unfolding step1_createCSR_def Let_def
  by (auto intro!: silent_intros split: option.splits)

lemma silent_step2: "silent (step2_createMessenger E flags ca)"
  unfolding step2_createMessenger_def Let_def findLocalAddr_def buildDialer_def
  by (auto intro!: silent_intros split: option.splits)

lemma silent_step3: "silent (step3_createRequest E flags feats localAddr trcs chain csr)"
  unfolding step3_createRequest_def Let_def
  by (auto intro!: silent_intros split: option.splits)

lemma silent_sendRequest: "silent (sendRequest E dst dialer req)"
  unfolding sendRequest_def
  by (auto intro!: silent_intros)

text \<open>A successful \<open>loadChain\<close> has only read the certificate file.\<close>

lemma loadChain_Ok:
  "fst (loadChain E trcs cert) = Ok x \<Longrightarrow> snd (loadChain E trcs cert) = [PEMCertsRead cert]"
  by (auto simp: loadChain_def fst_andThen snd_andThen act_def index0_def ret_def crash_def
        fail_def emit_def
      split: sum.splits option.splits list.splits if_splits res.splits)

lemma ok_only_loadChain:
  "(\<And>x. P x [PEMCertsRead cert]) \<Longrightarrow> ok_only P (loadChain E trcs cert)"
  unfolding ok_only_def using loadChain_Ok [where E = E and trcs = trcs and cert = cert]
  by fastforce

lemmas ok_only_intros =
  ok_only_andThen ok_only_ret ok_only_fail ok_only_crash ok_only_pure ok_only_lift ok_only_act
  ok_only_emit ok_only_index0 ok_only_loadChain
  ok_only_silent [OF silent_step1] ok_only_silent [OF silent_step2]
  ok_only_silent [OF silent_step3] ok_only_silent [OF silent_sendRequest]

text \<open>When the command has come as far as the parsed reply, the TRCs it holds are
  those that \<open>loadTRCs\<close> returned for the TRC files of the command line, and the only
  line it has printed is the one about the extracted remote.\<close>

lemma receiveChain_Ok:
  "ok_only
     (\<lambda>(trcs, renewed) pre.
        loadTRCs E (trcFiles flags) = Inr trcs
        \<and> (\<forall>s. Stdout s \<in> set pre \<longrightarrow>
              (\<exists>ia. s = ''Extracted remote from transport certificate chain:  ''
                         @ IA_String E ia @ newline)))
     (receiveChain E flags args)"
  unfolding receiveChain_def
  by (auto intro!: ok_only_intros split: option.splits) blast+

lemma receiveChain_loaded:
  "receiveChain E flags args = (Ok (trcs, renewed), pre) \<Longrightarrow>
   loadTRCs E (trcFiles flags) = Inr trcs"
  using receiveChain_Ok [of E flags args] by (auto simp: ok_only_def)

lemma receiveChain_stdout:
  "receiveChain E flags args = (Ok (trcs, renewed), pre) \<Longrightarrow> Stdout s \<in> set pre \<Longrightarrow>
   \<exists>ia. s = ''Extracted remote from transport certificate chain:  '' @ IA_String E ia @ newline"
  using receiveChain_Ok [of E flags args] by (auto simp: ok_only_def)

text \<open>\<open>RunE\<close> is the prefix followed by the output path and step 5.\<close>

lemma RunE_after_reply:
  "RunE E flags args =
     andThen (receiveChain E flags args)
     (\<lambda>(trcs, renewed). andThen (step5_out E flags renewed)
        (\<lambda>out. step5_verify E trcs renewed out))"
  unfolding RunE_def receiveChain_def
  by (simp only: andThen_assoc andThen_if andThen_case_prod andThen_fail andThen_ret prod.case)

lemma RunE_from_reply:
  assumes "receiveChain E flags args = (Ok (trcs, renewed), pre)"
    and "step5_out E flags renewed = ret out"
  shows "RunE E flags args =
           (fst (step5_verify E trcs renewed out), pre @ snd (step5_verify E trcs renewed out))"
  by (simp add: RunE_after_reply assms)

text \<open>\<open>writeChain\<close> does not panic, its events are file events, and it writes the
  whole chain when the file system accepts every action.\<close>

lemma encodeAll_no_panic: "fst (encodeAll E file cs) \<noteq> Panic s"
  by (induction cs) (auto simp: ret_def act_opt_def fst_andThen split: option.splits res.splits)

lemma writeChain_no_panic: "fst (writeChain E chain file) \<noteq> Panic s"
  by (auto simp: writeChain_def act_opt_def fst_andThen encodeAll_no_panic
      split: option.splits res.splits)

lemma encodeAll_events:
  "ev \<in> set (snd (encodeAll E file cs)) \<Longrightarrow> \<exists>b. ev = FileEncode file b"
  by (induction cs) (auto simp: ret_def act_opt_def snd_andThen split: option.splits res.splits)

lemma writeChain_events:
  "ev \<in> set (snd (writeChain E chain file)) \<Longrightarrow>
   ev = FileCreate file \<or> (\<exists>b. ev = FileEncode file b) \<or> ev = FileClose file"
  by (auto simp: writeChain_def act_opt_def snd_andThen dest: encodeAll_events
      split: option.splits res.splits)

lemma encodeAll_accepted:
  "\<forall>b. pem_Encode E file b = None \<Longrightarrow>
   encodeAll E file cs =
     (Ok (), map (\<lambda>c. FileEncode file \<lparr>Type = ''CERTIFICATE'', Bytes = Raw c\<rparr>) cs)"
  by (induction cs) (auto simp: ret_def act_opt_def)

lemma writeChain_accepted:
  "os_Create E file = None \<Longrightarrow> \<forall>b. pem_Encode E file b = None \<Longrightarrow> file_Close E file = None \<Longrightarrow>
   writeChain E chain file =
     (Ok (), FileCreate file
             # map (\<lambda>c. FileEncode file \<lparr>Type = ''CERTIFICATE'', Bytes = Raw c\<rparr>) chain
             @ [FileClose file])"
  by (simp add: writeChain_def act_opt_def encodeAll_accepted)

text \<open>Step 5 when the renewed chain does not verify, and when it does.\<close>

lemma step5_verify_failed:
  assumes "VerifyChain E renewed trcs = Some err"
  shows "step5_verify E trcs renewed out =
    (Err (WrapStr ''verification failed'' err),
     Stdout (''Verification failed, writing chain:  '' @ out @ ''.unverified'' @ newline)
     # snd (writeChain E renewed (out @ ''.unverified''))
     @ (case fst (writeChain E renewed (out @ ''.unverified'')) of
          Err werr \<Rightarrow> [Stdout (''Failed to write unverified chain:  '' @ Error E werr @ newline)]
        | _ \<Rightarrow> [])
     @ (if maybeMissingTRCInGrace E trcs
        then [Stdout graceLine, Stdout (predecessorLine (hd trcs))] else []))"
proof -
  obtain r t where w: "writeChain E renewed (out @ ''.unverified'') = (r, t)"
    by (cases "writeChain E renewed (out @ ''.unverified'')")
  have np: "\<And>s. r \<noteq> Panic s"
    using writeChain_no_panic [of E renewed "out @ ''.unverified''"] w by simp
  show ?thesis
  proof (cases r)
    case (Ok u)
    with assms w show ?thesis
      by (cases trcs)
         (simp_all add: step5_verify_def Let_def emit_def attempt_def ret_def fail_def
            maybeMissingTRCInGrace_def index0_def)
  next
    case (Err werr)
    with assms w show ?thesis
      by (cases trcs)
         (simp_all add: step5_verify_def Let_def emit_def attempt_def ret_def fail_def
            maybeMissingTRCInGrace_def index0_def)
  next
    case (Panic s)
    with np [of s] show ?thesis by simp
  qed
qed

lemma step5_verify_passed:
  assumes "VerifyChain E renewed trcs = None"
  shows "step5_verify E trcs renewed out =
    (case fst (writeChain E renewed out) of
       Ok u \<Rightarrow> Ok () | Err werr \<Rightarrow> Err werr | Panic s \<Rightarrow> Panic s,
     snd (writeChain E renewed out)
     @ (case fst (writeChain E renewed out) of
          Ok u \<Rightarrow> [Stdout (''Successfully wrote new chain at '' @ out @ newline)]
        | _ \<Rightarrow> []))"
  using assms
  by (cases "writeChain E renewed out"; cases "fst (writeChain E renewed out)")
     (simp_all add: step5_verify_def emit_def)

text \<open>The default output path as step 5 computes it.\<close>

lemma step5_out_default:
  assumes "outFile flags = []"
    and "renewed = leaf # rest"
    and "ExtractIA E (Certificate.Subject leaf) = Inr subject"
  shows "step5_out E flags renewed =
           ret (filepath_Join
                  [filepath_Dir (transportCertFile flags),
                   ''ISD'' @ Sprintf_d (unat (I subject)) @ ''-AS'' @ FileFmt E (A subject)
                   @ ''.'' @ Sprintf_x (big_Bytes (Certificate.SerialNumber leaf)) @ ''.pem''])"
  using assms by (simp add: step5_out_def outFileFromSubject_def index0_def)

text \<open>The formatting steps of the scenario.\<close>

lemma fmt_dir: "filepath_Dir ''/certs/old.pem'' = ''/certs''"
  by (simp add: filepath_Dir_def filepath_Clean_def)

lemma fmt_isd: "Sprintf_d (Suc 0) = ''1''"
  by (simp add: Sprintf_d.simps digit_def)

lemma fmt_two: "Sprintf_d 2 = ''2''"
  by (simp add: Sprintf_d.simps digit_def)

lemma fmt_hex: "Sprintf_x (big_Bytes 0x1a2b) = ''1a2b''"
  by (simp add: big_Bytes_def nat_Bytes.simps Sprintf_x_def digit_def)

lemma fmt_join: "filepath_Join [''/certs'', ''ISD1-ASff00_0_110.1a2b.pem'']
                = ''/certs/ISD1-ASff00_0_110.1a2b.pem''"
  by (simp add: filepath_Join_def filepath_Clean_def)

text \<open>The runs of the scenario up to the parsed reply.\<close>

lemmas reply_defs =
  receiveChain_def loadChain_def step1_createCSR_def readECKey_def csrTemplate_def
  buildExtensions_def subjectKeyID_def keyUsage_def extKeyUsage_def
  step2_createMessenger_def findLocalAddr_def buildDialer_def
  step3_createRequest_def createSigner_def sendRequest_def deferred_def extractChain_def
  index0_def ret_def fail_def act_def act_opt_def emit_def attempt_def wrap_def Let_def

lemmas scenario_defs =
  world_def flags110_def key110_def ia110_def trc1_def old_cert_def new_cert_def ca_cert_def
  subject110_def Name_zero_def csr_template110_def local110_def remote110_def request110_def
  two_certs_def parse_cert_def IA_zero_def zeros20_def pre110_def

lemma receiveChain_scenario:
  "receiveChain world flags110 [] = (Ok ([trc1], [new_cert, ca_cert]), pre110)"
  by (simp add: reply_defs scenario_defs)

lemma receiveChain_scenario_unverified:
  "receiveChain world_unverified flags110 [] = (Ok ([trc1], [new_cert, ca_cert]), pre110)"
  by (simp add: reply_defs scenario_defs world_unverified_def)

lemma receiveChain_scenario_three_trcs:
  "receiveChain world_unverified flags_three_trcs [] =
     (Ok ([trc1], [new_cert, ca_cert]), TRCsLoad (trcFiles flags_three_trcs) # tl pre110)"
  by (simp add: reply_defs scenario_defs world_unverified_def flags_three_trcs_def)

lemma receiveChain_scenario_two_trcs:
  "receiveChain world_two_trcs flags_two_trcs [] =
     (Ok ([trc1, trc_prev], [new_cert, ca_cert]), TRCsLoad (trcFiles flags_two_trcs) # tl pre110)"
  by (simp add: reply_defs scenario_defs world_unverified_def world_two_trcs_def trc_prev_def
      flags_two_trcs_def)

subsection \<open>The default output path\<close>

text \<open>
  C8. When the command has received and parsed the renewed chain and no output
  path was given, the path it uses is the directory of the transport certificate
  chain joined with \<open>ISD<isd>-AS<as>.<serial>.pem\<close>: the ISD number of the renewed
  leaf's subject in decimal, its AS number in file format and the leaf's serial
  number in hexadecimal. If the chain verifies, the command writes it to that
  path (create, one PEM block per certificate, close) and reports success; if it
  does not verify, the command writes it to that path with \<open>.unverified\<close> appended.
  For the subject 1-ff00:0:110, whose AS number has the file format \<open>ff00_0_110\<close>,
  the serial number 0x1a2b and the transport chain \<open>/certs/old.pem\<close>, the path is
  \<open>/certs/ISD1-ASff00_0_110.1a2b.pem\<close>.
\<close>

theorem RunE_default_output_path:
  assumes "receiveChain E flags args = (Ok (trcs, renewed), pre)"
    and "outFile flags = []"
    and "renewed = leaf # rest"
    and "ExtractIA E (Certificate.Subject leaf) = Inr subject"
    and "path = filepath_Join
                  [filepath_Dir (transportCertFile flags),
                   ''ISD'' @ Sprintf_d (unat (I subject)) @ ''-AS'' @ FileFmt E (A subject)
                   @ ''.'' @ Sprintf_x (big_Bytes (Certificate.SerialNumber leaf)) @ ''.pem'']"
  shows "(VerifyChain E renewed trcs = None \<longrightarrow>
            RunE E flags args =
              (case fst (writeChain E renewed path) of
                 Ok u \<Rightarrow> Ok () | Err werr \<Rightarrow> Err werr | Panic s \<Rightarrow> Panic s,
               pre @ snd (writeChain E renewed path)
               @ (case fst (writeChain E renewed path) of
                    Ok u \<Rightarrow> [Stdout (''Successfully wrote new chain at '' @ path @ newline)]
                  | _ \<Rightarrow> [])))
     \<and> (\<forall>err. VerifyChain E renewed trcs = Some err \<longrightarrow>
           (\<exists>more. snd (RunE E flags args) =
              pre @ Stdout (''Verification failed, writing chain:  '' @ path @ ''.unverified''
                            @ newline)
              # snd (writeChain E renewed (path @ ''.unverified'')) @ more))
     \<and> (os_Create E path = None \<and> (\<forall>b. pem_Encode E path b = None) \<and> file_Close E path = None
         \<longrightarrow> writeChain E renewed path =
               (Ok (), FileCreate path
                       # map (\<lambda>c. FileEncode path \<lparr>Type = ''CERTIFICATE'', Bytes = Raw c\<rparr>) renewed
                       @ [FileClose path]))
     \<and> (transportCertFile flags = ''/certs/old.pem'' \<and> I subject = 1
         \<and> A subject = 0xff0000000110 \<and> FileFmt E 0xff0000000110 = ''ff00_0_110''
         \<and> Certificate.SerialNumber leaf = 0x1a2b
         \<longrightarrow> path = ''/certs/ISD1-ASff00_0_110.1a2b.pem'')"
proof (intro conjI allI impI)
  have out: "step5_out E flags renewed = ret path"
    using step5_out_default [OF assms(2) assms(3) assms(4)] assms(5) by simp
  note run = RunE_from_reply [OF assms(1) out]
  show "RunE E flags args =
              (case fst (writeChain E renewed path) of
                 Ok u \<Rightarrow> Ok () | Err werr \<Rightarrow> Err werr | Panic s \<Rightarrow> Panic s,
               pre @ snd (writeChain E renewed path)
               @ (case fst (writeChain E renewed path) of
                    Ok u \<Rightarrow> [Stdout (''Successfully wrote new chain at '' @ path @ newline)]
                  | _ \<Rightarrow> []))"
    if "VerifyChain E renewed trcs = None"
    by (simp add: run step5_verify_passed [OF that])
  show "\<exists>more. snd (RunE E flags args) =
              pre @ Stdout (''Verification failed, writing chain:  '' @ path @ ''.unverified''
                            @ newline)
              # snd (writeChain E renewed (path @ ''.unverified'')) @ more"
    if "VerifyChain E renewed trcs = Some err" for err
    by (simp add: run step5_verify_failed [OF that])
  show "writeChain E renewed path =
               (Ok (), FileCreate path
                       # map (\<lambda>c. FileEncode path \<lparr>Type = ''CERTIFICATE'', Bytes = Raw c\<rparr>) renewed
                       @ [FileClose path])"
    if "os_Create E path = None \<and> (\<forall>b. pem_Encode E path b = None) \<and> file_Close E path = None"
    using that by (simp add: writeChain_accepted)
  show "path = ''/certs/ISD1-ASff00_0_110.1a2b.pem''"
    if "transportCertFile flags = ''/certs/old.pem'' \<and> I subject = 1
         \<and> A subject = 0xff0000000110 \<and> FileFmt E 0xff0000000110 = ''ff00_0_110''
         \<and> Certificate.SerialNumber leaf = 0x1a2b"
    using that by (simp add: assms(5) fmt_dir fmt_isd fmt_hex fmt_join)
qed

theorem RunE_default_output_path_witness:
  "receiveChain world flags110 [] = (Ok ([trc1], [new_cert, ca_cert]), pre110)
   \<and> outFile flags110 = []
   \<and> ExtractIA world (Certificate.Subject new_cert) = Inr ia110
   \<and> transportCertFile flags110 = ''/certs/old.pem''
   \<and> I ia110 = 1 \<and> A ia110 = 0xff0000000110
   \<and> FileFmt world 0xff0000000110 = ''ff00_0_110''
   \<and> Certificate.SerialNumber new_cert = 0x1a2b
   \<and> VerifyChain world [new_cert, ca_cert] [trc1] = None
   \<and> RunE world flags110 [] =
       (Ok (),
        pre110
        @ [FileCreate ''/certs/ISD1-ASff00_0_110.1a2b.pem'',
           FileEncode ''/certs/ISD1-ASff00_0_110.1a2b.pem''
             \<lparr>Type = ''CERTIFICATE'', Bytes = [0x30, 0x01]\<rparr>,
           FileEncode ''/certs/ISD1-ASff00_0_110.1a2b.pem''
             \<lparr>Type = ''CERTIFICATE'', Bytes = [0x30, 0x02]\<rparr>,
           FileClose ''/certs/ISD1-ASff00_0_110.1a2b.pem'',
           Stdout (''Successfully wrote new chain at /certs/ISD1-ASff00_0_110.1a2b.pem''
                   @ newline)])"
proof -
  have out: "outFile flags110 = []"
    and ia: "ExtractIA world (Certificate.Subject new_cert) = Inr ia110"
    and cert: "transportCertFile flags110 = ''/certs/old.pem''"
    and isd: "I ia110 = 1" and asn: "A ia110 = 0xff0000000110"
    and fmt: "FileFmt world 0xff0000000110 = ''ff00_0_110''"
    and ser: "Certificate.SerialNumber new_cert = 0x1a2b"
    and ver: "VerifyChain world [new_cert, ca_cert] [trc1] = None"
    and fs: "os_Create world ''/certs/ISD1-ASff00_0_110.1a2b.pem'' = None
             \<and> (\<forall>b. pem_Encode world ''/certs/ISD1-ASff00_0_110.1a2b.pem'' b = None)
             \<and> file_Close world ''/certs/ISD1-ASff00_0_110.1a2b.pem'' = None"
    by (simp_all add: flags110_def world_def ia110_def new_cert_def)
  have shape: "[new_cert, ca_cert] = new_cert # [ca_cert]"
    by simp
  have path: "''/certs/ISD1-ASff00_0_110.1a2b.pem'' =
      filepath_Join
        [filepath_Dir (transportCertFile flags110),
         ''ISD'' @ Sprintf_d (unat (I ia110)) @ ''-AS'' @ FileFmt world (A ia110)
         @ ''.'' @ Sprintf_x (big_Bytes (Certificate.SerialNumber new_cert)) @ ''.pem'']"
    by (simp add: cert isd asn fmt ser fmt_dir fmt_isd fmt_hex fmt_join)
  note inst = RunE_default_output_path [OF receiveChain_scenario out shape ia path]
  from inst [THEN conjunct2, THEN conjunct2, THEN conjunct1] fs
  have written: "writeChain world [new_cert, ca_cert] ''/certs/ISD1-ASff00_0_110.1a2b.pem'' =
      (Ok (),
       [FileCreate ''/certs/ISD1-ASff00_0_110.1a2b.pem'',
        FileEncode ''/certs/ISD1-ASff00_0_110.1a2b.pem''
          \<lparr>Type = ''CERTIFICATE'', Bytes = [0x30, 0x01]\<rparr>,
        FileEncode ''/certs/ISD1-ASff00_0_110.1a2b.pem''
          \<lparr>Type = ''CERTIFICATE'', Bytes = [0x30, 0x02]\<rparr>,
        FileClose ''/certs/ISD1-ASff00_0_110.1a2b.pem''])"
    by (simp add: new_cert_def ca_cert_def)
  from inst [THEN conjunct1] ver
  have "RunE world flags110 [] =
       (Ok (),
        pre110
        @ [FileCreate ''/certs/ISD1-ASff00_0_110.1a2b.pem'',
           FileEncode ''/certs/ISD1-ASff00_0_110.1a2b.pem''
             \<lparr>Type = ''CERTIFICATE'', Bytes = [0x30, 0x01]\<rparr>,
           FileEncode ''/certs/ISD1-ASff00_0_110.1a2b.pem''
             \<lparr>Type = ''CERTIFICATE'', Bytes = [0x30, 0x02]\<rparr>,
           FileClose ''/certs/ISD1-ASff00_0_110.1a2b.pem'',
           Stdout (''Successfully wrote new chain at /certs/ISD1-ASff00_0_110.1a2b.pem''
                   @ newline)])"
    by (simp add: written)
  with receiveChain_scenario out ia cert isd asn fmt ser ver show ?thesis
    by blast
qed

subsection \<open>Verification failure and the grace period\<close>

text \<open>The whole run when the renewed chain does not verify.\<close>

lemma RunE_unverified_run:
  assumes "receiveChain E flags args = (Ok (trcs, renewed), pre)"
    and "step5_out E flags renewed = ret out"
    and "VerifyChain E renewed trcs = Some err"
  shows "RunE E flags args =
        (Err (WrapStr ''verification failed'' err),
         pre
         @ Stdout (''Verification failed, writing chain:  '' @ out @ ''.unverified'' @ newline)
         # snd (writeChain E renewed (out @ ''.unverified''))
         @ (case fst (writeChain E renewed (out @ ''.unverified'')) of
              Err werr \<Rightarrow>
                [Stdout (''Failed to write unverified chain:  '' @ Error E werr @ newline)]
            | _ \<Rightarrow> [])
         @ (if length trcs = 1 \<and> InGracePeriod E (hd trcs) (time_Now E)
            then [Stdout graceLine,
                  Stdout (''Try to verify with the predecessor TRC: (Base = ''
                          @ Sprintf_d (unat (Base (ID (hd trcs)))) @ '', Serial = ''
                          @ Sprintf_d (unat (Serial (ID (hd trcs)) - 1)) @ '')'' @ newline)]
            else []))"
  by (simp add: RunE_from_reply [OF assms(1) assms(2)] step5_verify_failed [OF assms(3)]
      maybeMissingTRCInGrace_def predecessorLine_def)

text \<open>
  C6, as the specification states it, lets the number of TRCs supplied decide:
  with more than one TRC supplied, no guidance is printed. The command decides on
  the list that \<open>loadTRCs\<close> returns, which selects the TRCs to use among the supplied
  files (the help text of the flag \<open>trc\<close>: of more than two TRCs, only up to two
  active ones are used). In the scenario three TRC files are supplied, the TRC
  with serial 3 and two copies of the superseded TRC with serial 1; \<open>loadTRCs\<close>
  returns the one active TRC, it is in its grace period, the renewed chain does
  not verify, and both lines of the guidance are printed.
\<close>

theorem guidance_with_three_supplied_TRCs:
  "length (trcFiles flags_three_trcs) = 3
   \<and> loadTRCs world_unverified (trcFiles flags_three_trcs) = Inr [trc1]
   \<and> VerifyChain world_unverified [new_cert, ca_cert] [trc1] = Some unknown_authority
   \<and> fst (RunE world_unverified flags_three_trcs [])
       = Err (WrapStr ''verification failed'' unknown_authority)
   \<and> Stdout graceLine \<in> set (snd (RunE world_unverified flags_three_trcs []))
   \<and> Stdout (''Try to verify with the predecessor TRC: (Base = 1, Serial = 2)'' @ newline)
       \<in> set (snd (RunE world_unverified flags_three_trcs []))"
proof -
  have n: "length (trcFiles flags_three_trcs) = 3"
    and l: "loadTRCs world_unverified (trcFiles flags_three_trcs) = Inr [trc1]"
    and v: "VerifyChain world_unverified [new_cert, ca_cert] [trc1] = Some unknown_authority"
    and g: "InGracePeriod world_unverified trc1 (time_Now world_unverified)"
    by (simp_all add: flags_three_trcs_def flags110_def world_unverified_def world_def)
  have o: "step5_out world_unverified flags_three_trcs [new_cert, ca_cert]
             = ret ''/certs/ISD1-ASff00_0_110.1a2b.pem''"
    by (simp add: step5_out_def outFileFromSubject_def index0_def flags_three_trcs_def
        world_unverified_def world_def flags110_def ia110_def new_cert_def
        fmt_dir fmt_isd fmt_hex fmt_join)
  have base: "Sprintf_d (unat (Base (ID trc1))) = ''1''"
    and serial: "Sprintf_d (unat (Serial (ID trc1) - 1)) = ''2''"
    by (simp_all add: trc1_def fmt_isd fmt_two)
  note run = RunE_unverified_run [OF receiveChain_scenario_three_trcs o v]
  have r: "fst (RunE world_unverified flags_three_trcs [])
             = Err (WrapStr ''verification failed'' unknown_authority)"
    by (simp add: run)
  have a: "Stdout graceLine \<in> set (snd (RunE world_unverified flags_three_trcs []))"
    by (simp add: run g)
  have b: "Stdout (''Try to verify with the predecessor TRC: (Base = 1, Serial = 2)'' @ newline)
             \<in> set (snd (RunE world_unverified flags_three_trcs []))"
    by (simp add: run g base serial)
  from n l v r a b show ?thesis by blast
qed

text \<open>
  C6, amended. When the command has received and parsed the renewed chain and the
  chain fails verification, the command prints that it writes the chain, writes
  it to the output path with the suffix \<open>.unverified\<close> (create, one PEM block per
  certificate, close, when the file system accepts them), and returns the error
  "verification failed" wrapping the cause; it does not panic. The TRCs it
  verifies against are those that \<open>loadTRCs\<close> returned for the supplied TRC files.
  When that list has exactly one TRC and the TRC is in its grace period, the last
  two lines printed are the guidance, naming the base of that TRC and its serial
  minus one (in unsigned 64-bit arithmetic). When that list has any other length,
  or outside the grace period, the run prints neither line of the guidance.
\<close>

theorem RunE_verification_failed:
  assumes "receiveChain E flags args = (Ok (trcs, renewed), pre)"
    and "step5_out E flags renewed = ret out"
    and "VerifyChain E renewed trcs = Some err"
  shows "loadTRCs E (trcFiles flags) = Inr trcs
    \<and> RunE E flags args =
        (Err (WrapStr ''verification failed'' err),
         pre
         @ Stdout (''Verification failed, writing chain:  '' @ out @ ''.unverified'' @ newline)
         # snd (writeChain E renewed (out @ ''.unverified''))
         @ (case fst (writeChain E renewed (out @ ''.unverified'')) of
              Err werr \<Rightarrow>
                [Stdout (''Failed to write unverified chain:  '' @ Error E werr @ newline)]
            | _ \<Rightarrow> [])
         @ (if length trcs = 1 \<and> InGracePeriod E (hd trcs) (time_Now E)
            then [Stdout graceLine,
                  Stdout (''Try to verify with the predecessor TRC: (Base = ''
                          @ Sprintf_d (unat (Base (ID (hd trcs)))) @ '', Serial = ''
                          @ Sprintf_d (unat (Serial (ID (hd trcs)) - 1)) @ '')'' @ newline)]
            else []))
    \<and> (os_Create E (out @ ''.unverified'') = None
        \<and> (\<forall>b. pem_Encode E (out @ ''.unverified'') b = None)
        \<and> file_Close E (out @ ''.unverified'') = None \<longrightarrow>
        writeChain E renewed (out @ ''.unverified'') =
          (Ok (),
           FileCreate (out @ ''.unverified'')
           # map (\<lambda>c. FileEncode (out @ ''.unverified'') \<lparr>Type = ''CERTIFICATE'', Bytes = Raw c\<rparr>)
               renewed
           @ [FileClose (out @ ''.unverified'')]))
    \<and> (length trcs \<noteq> 1 \<or> \<not> InGracePeriod E (hd trcs) (time_Now E) \<longrightarrow>
          Stdout graceLine \<notin> set (snd (RunE E flags args))
          \<and> (\<forall>trc. Stdout (predecessorLine trc) \<notin> set (snd (RunE E flags args))))"
proof (intro conjI allI impI)
  note run = RunE_unverified_run [OF assms]
  show "loadTRCs E (trcFiles flags) = Inr trcs"
    using assms(1) by (rule receiveChain_loaded)
  show "RunE E flags args =
        (Err (WrapStr ''verification failed'' err),
         pre
         @ Stdout (''Verification failed, writing chain:  '' @ out @ ''.unverified'' @ newline)
         # snd (writeChain E renewed (out @ ''.unverified''))
         @ (case fst (writeChain E renewed (out @ ''.unverified'')) of
              Err werr \<Rightarrow>
                [Stdout (''Failed to write unverified chain:  '' @ Error E werr @ newline)]
            | _ \<Rightarrow> [])
         @ (if length trcs = 1 \<and> InGracePeriod E (hd trcs) (time_Now E)
            then [Stdout graceLine,
                  Stdout (''Try to verify with the predecessor TRC: (Base = ''
                          @ Sprintf_d (unat (Base (ID (hd trcs)))) @ '', Serial = ''
                          @ Sprintf_d (unat (Serial (ID (hd trcs)) - 1)) @ '')'' @ newline)]
            else []))"
    by (rule run)
  show "writeChain E renewed (out @ ''.unverified'') =
          (Ok (),
           FileCreate (out @ ''.unverified'')
           # map (\<lambda>c. FileEncode (out @ ''.unverified'') \<lparr>Type = ''CERTIFICATE'', Bytes = Raw c\<rparr>)
               renewed
           @ [FileClose (out @ ''.unverified'')])"
    if "os_Create E (out @ ''.unverified'') = None
        \<and> (\<forall>b. pem_Encode E (out @ ''.unverified'') b = None)
        \<and> file_Close E (out @ ''.unverified'') = None"
    using that by (simp add: writeChain_accepted)
  assume no: "length trcs \<noteq> 1 \<or> \<not> InGracePeriod E (hd trcs) (time_Now E)"
  have pre: "Stdout s \<in> set pre \<Longrightarrow> \<exists>rest. s = CHR ''E'' # rest" for s
    using receiveChain_stdout [OF assms(1), of s] by auto
  have g: "\<not> (\<exists>rest. graceLine = CHR ''E'' # rest)"
    and p: "\<not> (\<exists>rest. predecessorLine trc = CHR ''E'' # rest)" for trc
    by (simp_all add: graceLine_def predecessorLine_def)
  show "Stdout graceLine \<notin> set (snd (RunE E flags args))"
    using no pre [of graceLine] g
    by (auto simp: run graceLine_def dest: writeChain_events split: res.splits)
  show "Stdout (predecessorLine trc) \<notin> set (snd (RunE E flags args))" for trc
    using no pre [of "predecessorLine trc"] p [of trc]
    by (auto simp: run predecessorLine_def dest: writeChain_events split: res.splits)
qed

theorem RunE_verification_failed_witness:
  "receiveChain world_unverified flags110 [] = (Ok ([trc1], [new_cert, ca_cert]), pre110)
   \<and> VerifyChain world_unverified [new_cert, ca_cert] [trc1] = Some unknown_authority
   \<and> loadTRCs world_unverified (trcFiles flags110) = Inr [trc1]
   \<and> InGracePeriod world_unverified trc1 (time_Now world_unverified)
   \<and> RunE world_unverified flags110 [] =
       (Err (WrapStr ''verification failed'' unknown_authority),
        pre110
        @ [Stdout (''Verification failed, writing chain:  ''
                   @ ''/certs/ISD1-ASff00_0_110.1a2b.pem.unverified'' @ newline),
           FileCreate ''/certs/ISD1-ASff00_0_110.1a2b.pem.unverified'',
           FileEncode ''/certs/ISD1-ASff00_0_110.1a2b.pem.unverified''
             \<lparr>Type = ''CERTIFICATE'', Bytes = [0x30, 0x01]\<rparr>,
           FileEncode ''/certs/ISD1-ASff00_0_110.1a2b.pem.unverified''
             \<lparr>Type = ''CERTIFICATE'', Bytes = [0x30, 0x02]\<rparr>,
           FileClose ''/certs/ISD1-ASff00_0_110.1a2b.pem.unverified'',
           Stdout graceLine,
           Stdout (''Try to verify with the predecessor TRC: (Base = 1, Serial = 2)''
                   @ newline)])
   \<and> length (trcFiles flags_two_trcs) = 2
   \<and> loadTRCs world_two_trcs (trcFiles flags_two_trcs) = Inr [trc1, trc_prev]
   \<and> VerifyChain world_two_trcs [new_cert, ca_cert] [trc1, trc_prev] = Some unknown_authority
   \<and> length [trc1, trc_prev] \<noteq> 1
   \<and> fst (RunE world_two_trcs flags_two_trcs [])
       = Err (WrapStr ''verification failed'' unknown_authority)
   \<and> Stdout graceLine \<notin> set (snd (RunE world_two_trcs flags_two_trcs []))
   \<and> Stdout (predecessorLine trc1) \<notin> set (snd (RunE world_two_trcs flags_two_trcs []))"
proof -
  have v1: "VerifyChain world_unverified [new_cert, ca_cert] [trc1] = Some unknown_authority"
    and v2: "VerifyChain world_two_trcs [new_cert, ca_cert] [trc1, trc_prev]
               = Some unknown_authority"
    and g: "InGracePeriod world_unverified trc1 (time_Now world_unverified)"
    and fs: "os_Create world_unverified (''/certs/ISD1-ASff00_0_110.1a2b.pem'' @ ''.unverified'')
               = None
        \<and> (\<forall>b. pem_Encode world_unverified
                  (''/certs/ISD1-ASff00_0_110.1a2b.pem'' @ ''.unverified'') b = None)
        \<and> file_Close world_unverified (''/certs/ISD1-ASff00_0_110.1a2b.pem'' @ ''.unverified'')
            = None"
    by (simp_all add: world_two_trcs_def world_unverified_def world_def)
  have o1: "step5_out world_unverified flags110 [new_cert, ca_cert]
              = ret ''/certs/ISD1-ASff00_0_110.1a2b.pem''"
    and o2: "step5_out world_two_trcs flags_two_trcs [new_cert, ca_cert]
              = ret ''/certs/ISD1-ASff00_0_110.1a2b.pem''"
    by (simp_all add: step5_out_def outFileFromSubject_def index0_def world_two_trcs_def
        world_unverified_def world_def flags_two_trcs_def flags110_def ia110_def new_cert_def
        fmt_dir fmt_isd fmt_hex fmt_join)
  have base: "Sprintf_d (unat (Base (ID trc1))) = ''1''"
    and serial: "Sprintf_d (unat (Serial (ID trc1) - 1)) = ''2''"
    by (simp_all add: trc1_def fmt_isd fmt_two)
  note one = RunE_verification_failed [OF receiveChain_scenario_unverified o1 v1]
  note two = RunE_verification_failed [OF receiveChain_scenario_two_trcs o2 v2]
  from one have loaded: "loadTRCs world_unverified (trcFiles flags110) = Inr [trc1]"
    by (rule conjunct1)
  from one [THEN conjunct2, THEN conjunct2, THEN conjunct1] fs
  have written: "writeChain world_unverified [new_cert, ca_cert]
                   (''/certs/ISD1-ASff00_0_110.1a2b.pem'' @ ''.unverified'') =
       (Ok (),
        [FileCreate ''/certs/ISD1-ASff00_0_110.1a2b.pem.unverified'',
         FileEncode ''/certs/ISD1-ASff00_0_110.1a2b.pem.unverified''
           \<lparr>Type = ''CERTIFICATE'', Bytes = [0x30, 0x01]\<rparr>,
         FileEncode ''/certs/ISD1-ASff00_0_110.1a2b.pem.unverified''
           \<lparr>Type = ''CERTIFICATE'', Bytes = [0x30, 0x02]\<rparr>,
         FileClose ''/certs/ISD1-ASff00_0_110.1a2b.pem.unverified''])"
    by (simp add: new_cert_def ca_cert_def)
  from one [THEN conjunct2, THEN conjunct1] g
  have run: "RunE world_unverified flags110 [] =
       (Err (WrapStr ''verification failed'' unknown_authority),
        pre110
        @ [Stdout (''Verification failed, writing chain:  ''
                   @ ''/certs/ISD1-ASff00_0_110.1a2b.pem.unverified'' @ newline),
           FileCreate ''/certs/ISD1-ASff00_0_110.1a2b.pem.unverified'',
           FileEncode ''/certs/ISD1-ASff00_0_110.1a2b.pem.unverified''
             \<lparr>Type = ''CERTIFICATE'', Bytes = [0x30, 0x01]\<rparr>,
           FileEncode ''/certs/ISD1-ASff00_0_110.1a2b.pem.unverified''
             \<lparr>Type = ''CERTIFICATE'', Bytes = [0x30, 0x02]\<rparr>,
           FileClose ''/certs/ISD1-ASff00_0_110.1a2b.pem.unverified'',
           Stdout graceLine,
           Stdout (''Try to verify with the predecessor TRC: (Base = 1, Serial = 2)''
                   @ newline)])"
    using written by (simp add: base serial)
  have many: "length [trc1, trc_prev] \<noteq> 1"
    by simp
  have n2: "length (trcFiles flags_two_trcs) = 2"
    by (simp add: flags_two_trcs_def)
  from two have loaded2: "loadTRCs world_two_trcs (trcFiles flags_two_trcs) = Inr [trc1, trc_prev]"
    by (rule conjunct1)
  from two [THEN conjunct2, THEN conjunct1]
  have failed2: "fst (RunE world_two_trcs flags_two_trcs [])
                   = Err (WrapStr ''verification failed'' unknown_authority)"
    by simp
  from two [THEN conjunct2, THEN conjunct2, THEN conjunct2] many
  have quiet1: "Stdout graceLine \<notin> set (snd (RunE world_two_trcs flags_two_trcs []))"
    and quiet2: "Stdout (predecessorLine trc1) \<notin> set (snd (RunE world_two_trcs flags_two_trcs []))"
    by blast+
  from receiveChain_scenario_unverified v1 loaded g run n2 loaded2 v2 many failed2 quiet1 quiet2
  show ?thesis by blast
qed

subsection \<open>Exporting the request without the CMS encoding\<close>

text \<open>Nothing before step 4 dials the control service or sends a request.\<close>

lemma quiet_readECKey [quiet_intros]: "quiet (readECKey E file)"
  unfolding readECKey_def
  by (auto intro!: quiet_intros simp: transmits_def split: option.splits PrivateKey.splits)

lemma quiet_createSigner [quiet_intros]: "quiet (createSigner E ia trc chain file)"
  unfolding createSigner_def
  by (intro quiet_intros)

lemma quiet_loadChain [quiet_intros]: "quiet (loadChain E trcs file)"
  unfolding loadChain_def
  by (auto intro!: quiet_intros simp: transmits_def split: option.splits sum.splits)

lemma quiet_csrTemplate [quiet_intros]: "quiet (csrTemplate E prev pub file)"
  unfolding csrTemplate_def subjectFromTemplate_def readVars_def
  by (auto intro!: quiet_intros simp: transmits_def)

lemma quiet_step1 [quiet_intros]: "quiet (step1_createCSR E flags chain)"
  unfolding step1_createCSR_def Let_def
  by (auto intro!: quiet_intros simp: transmits_def split: option.splits)

lemma quiet_step2 [quiet_intros]: "quiet (step2_createMessenger E flags ca)"
  unfolding step2_createMessenger_def Let_def findLocalAddr_def buildDialer_def
  by (auto intro!: quiet_intros simp: transmits_def split: option.splits)

lemma step3_no_cms:
  assumes "reqFile flags \<noteq> []" and "DisableCMSRequest feats"
  shows "halts (step3_createRequest E flags feats localAddr trcs chain csr)"
  unfolding step3_createRequest_def Let_def using assms
  by (auto intro!: halts_bind quiet_intros halts_fail)

lemma RunE_no_cms:
  assumes "reqFile flags \<noteq> []"
    and "feature_Parse E (features flags) = Inr feats"
    and "DisableCMSRequest feats"
  shows "halts (RunE E flags args)"
  unfolding RunE_def using assms
  by (auto intro!: halts_bind halts_first [OF step3_no_cms] quiet_intros halts_fail
      simp: transmits_def split: option.splits)

text \<open>The error of step 3 once the signer, and the legacy request if enabled, have
  been created.\<close>

lemma step3_no_cms_error:
  assumes "reqFile flags \<noteq> []" and "DisableCMSRequest feats"
    and "createSigner E (UDPAddr.IA localAddr) trc0 chain (transportKeyFile flags)
           = (Ok signer, t)"
    and "DisableLegacyRequest feats \<or> NewLegacyChainRenewalRequest E csr signer = Inr legacyReq"
  shows "step3_createRequest E flags feats localAddr (trc0 # trcs) chain csr
           = (Err (New ''cannot write request to file: no request created''), t)"
  using assms
  by (auto simp: step3_createRequest_def index0_def Let_def ret_def fail_def)

text \<open>The result of step 1 does not depend on the outcome of the write of the CSR.\<close>

lemma SubjectKeyID_write [simp]:
  "SubjectKeyID (E\<lparr>ioutil_WriteFile := w\<rparr>) pub = SubjectKeyID E pub"
  by (induction E pub rule: SubjectKeyID.induct) simp_all

lemma readECKey_write [simp]: "readECKey (E\<lparr>ioutil_WriteFile := w\<rparr>) file = readECKey E file"
  by (simp add: readECKey_def cong: option.case_cong)

lemma csrTemplate_write [simp]:
  "csrTemplate (E\<lparr>ioutil_WriteFile := w\<rparr>) prev pub file = csrTemplate E prev pub file"
  by (simp add: csrTemplate_def subjectFromTemplate_def readVars_def subjectFromVars_def
      buildExtensions_def subjectKeyID_def keyUsage_def extKeyUsage_def
      cong: if_cong option.case_cong sum.case_cong res.case_cong)

lemma step1_write_independent:
  "fst (step1_createCSR (E\<lparr>ioutil_WriteFile := w\<rparr>) flags chain)
     = fst (step1_createCSR E flags chain)"
  by (auto simp: step1_createCSR_def fst_andThen Let_def act_opt_def attempt_def emit_def
        ret_def
      split: res.splits option.splits cong: if_cong)

text \<open>
  C10. When the operator asks for the signed request to be written to a file and
  the CMS request is disabled, the command does not succeed and never dials the
  control service or sends a request. Once the signer (and the legacy request,
  if enabled) has been created, step 3 ends with the error "cannot write request
  to file: no request created". The export of the CSR in step 1 is different:
  the result of step 1 is the same whether or not that write succeeds.
\<close>

theorem req_out_without_cms:
  assumes "reqFile flags \<noteq> []"
    and "feature_Parse E (features flags) = Inr feats"
    and "DisableCMSRequest feats"
  shows "fst (RunE E flags args) \<noteq> Ok ()
    \<and> (\<forall>req. RequestSend req \<notin> set (snd (RunE E flags args)))
    \<and> (\<forall>dst. ServiceDial dst \<notin> set (snd (RunE E flags args)))
    \<and> (\<forall>signer t legacyReq.
          createSigner E (UDPAddr.IA localAddr) trc0 chain (transportKeyFile flags)
            = (Ok signer, t)
          \<and> (DisableLegacyRequest feats
              \<or> NewLegacyChainRenewalRequest E csr signer = Inr legacyReq)
          \<longrightarrow> step3_createRequest E flags feats localAddr (trc0 # trcs) chain csr
                = (Err (New ''cannot write request to file: no request created''), t))
    \<and> fst (step1_createCSR (E\<lparr>ioutil_WriteFile := w\<rparr>) flags chain)
        = fst (step1_createCSR E flags chain)"
proof -
  have h: "halts (RunE E flags args)"
    using assms by (rule RunE_no_cms)
  have a: "fst (RunE E flags args) \<noteq> Ok ()"
    using h by (simp add: halts_def)
  have b: "RequestSend req \<notin> set (snd (RunE E flags args))" for req
    using h by (auto simp: halts_def quiet_def transmits_def)
  have c: "ServiceDial dst \<notin> set (snd (RunE E flags args))" for dst
    using h by (auto simp: halts_def quiet_def transmits_def)
  have d: "step3_createRequest E flags feats localAddr (trc0 # trcs) chain csr
                = (Err (New ''cannot write request to file: no request created''), t)"
    if "createSigner E (UDPAddr.IA localAddr) trc0 chain (transportKeyFile flags)
            = (Ok signer, t)
          \<and> (DisableLegacyRequest feats
              \<or> NewLegacyChainRenewalRequest E csr signer = Inr legacyReq)"
    for signer t legacyReq
    using that step3_no_cms_error [OF assms(1) assms(3)] by blast
  from a b c d step1_write_independent show ?thesis by blast
qed

lemma createSigner_scenario:
  "createSigner world ia110 trc1 [old_cert, ca_cert] ''ec.key'' =
     (Ok \<lparr>PrivateKey = key110, Algorithm = 1, trust_Signer.IA = ia110, TRCID = ID trc1,
          trust_Signer.SubjectKeyID = [0x01], Expiration = 7200000005000,
          ChainValidity = \<lparr>NotBefore = 2000, NotAfter = 6000\<rparr>,
          trust_Signer.Subject = subject110,
          trust_Signer.Chain = [old_cert, ca_cert]\<rparr>,
      [FileRead ''ec.key''])"
  by (simp add: createSigner_def readECKey_def world_def act_def ret_def index0_def key110_def
      old_cert_def Add_def)

theorem req_out_without_cms_witness:
  "reqFile flags_req_out \<noteq> []
   \<and> feature_Parse world (features flags_req_out)
       = Inr \<lparr>DisableLegacyRequest = False, DisableCMSRequest = True\<rparr>
   \<and> fst (RunE world flags_req_out []) \<noteq> Ok ()
   \<and> (\<forall>req. RequestSend req \<notin> set (snd (RunE world flags_req_out [])))
   \<and> step3_createRequest world flags_req_out
        \<lparr>DisableLegacyRequest = False, DisableCMSRequest = True\<rparr>
        \<lparr>UDPAddr.IA = ia110, Host = Some [127, 0, 0, 1]\<rparr> [trc1] [old_cert, ca_cert] [0x30, 0x03]
       = (Err (New ''cannot write request to file: no request created''), [FileRead ''ec.key''])"
proof -
  have r: "reqFile flags_req_out \<noteq> []"
    and f: "feature_Parse world (features flags_req_out)
              = Inr \<lparr>DisableLegacyRequest = False, DisableCMSRequest = True\<rparr>"
    and d: "DisableCMSRequest \<lparr>DisableLegacyRequest = False, DisableCMSRequest = True\<rparr>"
    and k: "transportKeyFile flags_req_out = ''ec.key''"
    by (simp_all add: flags_req_out_def flags110_def world_def)
  have l: "NewLegacyChainRenewalRequest world [0x30, 0x03]
             \<lparr>PrivateKey = key110, Algorithm = 1, trust_Signer.IA = ia110, TRCID = ID trc1,
              trust_Signer.SubjectKeyID = [0x01], Expiration = 7200000005000,
              ChainValidity = \<lparr>NotBefore = 2000, NotAfter = 6000\<rparr>,
              trust_Signer.Subject = subject110,
              trust_Signer.Chain = [old_cert, ca_cert]\<rparr>
           = Inr (Some (SignedMessage [0x30, 0x03]))"
    by (simp add: world_def)
  note inst = req_out_without_cms [OF r f d, of "[]"
      "\<lparr>UDPAddr.IA = ia110, Host = Some [127, 0, 0, 1]\<rparr>" trc1 "[old_cert, ca_cert]"
      "[0x30, 0x03]" "[]"]
  from inst have a: "fst (RunE world flags_req_out []) \<noteq> Ok ()"
    by (rule conjunct1)
  from inst have b: "\<forall>req. RequestSend req \<notin> set (snd (RunE world flags_req_out []))"
    by (rule conjunct2 [THEN conjunct1])
  from inst [THEN conjunct2, THEN conjunct2, THEN conjunct2, THEN conjunct1, rule_format,
      of _ "[FileRead ''ec.key'']" "Some (SignedMessage [0x30, 0x03])"]
    createSigner_scenario l k
  have c: "step3_createRequest world flags_req_out
        \<lparr>DisableLegacyRequest = False, DisableCMSRequest = True\<rparr>
        \<lparr>UDPAddr.IA = ia110, Host = Some [127, 0, 0, 1]\<rparr> [trc1] [old_cert, ca_cert] [0x30, 0x03]
       = (Err (New ''cannot write request to file: no request created''), [FileRead ''ec.key''])"
    by simp
  from r f a b c show ?thesis by simp
qed

end
